theory Spec2Isabelle
  imports Complex_Main
begin

section \<open>JavaScript numbers\<close>

text \<open>
  A JavaScript number is an IEEE 754 binary64 value: a finite double, given by its exact
  rational value, an infinity or NaN. The two zeros are one value (they differ only under
  \<open>Object.is\<close> and division). Arithmetic rounds the exact result to the nearest double,
  a tie going to the even significand, and overflows to an infinity.
\<close>

datatype jsNumber = Finite rat | PosInfinity | NegInfinity | NaN

text \<open>The position of the leading bit of a positive natural number.\<close>

fun log2floor :: "nat \<Rightarrow> nat" where
  "log2floor n = (if n < 2 then 0 else Suc (log2floor (n div 2)))"

text \<open>The binade of a non-zero rational: the \<open>e\<close> with \<open>2^e \<le> |x| < 2^(e+1)\<close>.\<close>

definition binadeExponent :: "rat \<Rightarrow> int" where
  "binadeExponent x =
    (let (a, b) = quotient_of \<bar>x\<bar>;
         d = int (log2floor (nat a)) - int (log2floor (nat b))
     in if 2 powi d \<le> \<bar>x\<bar> then d else d - 1)"

definition roundHalfEven :: "rat \<Rightarrow> int" where
  "roundHalfEven t =
    (let f = \<lfloor>t\<rfloor>; r = t - of_int f
     in if r < 1 / 2 then f
        else if 1 / 2 < r then f + 1
        else if even f then f else f + 1)"

text \<open>
  The spacing of the doubles around \<open>x\<close>: 53 significant bits, and the fixed spacing
  \<open>2^-1074\<close> of the subnormal range below \<open>2^-1022\<close>.
\<close>

definition quantum :: "rat \<Rightarrow> rat" where
  "quantum x = 2 powi (max (binadeExponent x) (- 1022) - 52)"

definition overflowThreshold :: rat where
  "overflowThreshold = 2 ^ 1024"

text \<open>The double nearest to an exact result.\<close>

definition toDouble :: "rat \<Rightarrow> jsNumber" where
  "toDouble x =
    (let q = quantum x;
         y = of_int (roundHalfEven (x / q)) * q
     in if overflowThreshold \<le> y then PosInfinity
        else if y \<le> - overflowThreshold then NegInfinity
        else Finite y)"

text \<open>The rationals that are doubles, and the values of the type that are JavaScript numbers.\<close>

definition isDouble :: "rat \<Rightarrow> bool" where
  "isDouble x = (toDouble x = Finite x)"

fun isNumber :: "jsNumber \<Rightarrow> bool" where
  "isNumber (Finite x) = isDouble x"
| "isNumber _ = True"

fun isInteger :: "jsNumber \<Rightarrow> bool" where
  "isInteger (Finite x) = (x = of_int \<lfloor>x\<rfloor>)"
| "isInteger _ = False"

text \<open>The operators \<open>*\<close>, \<open>+\<close> and \<open><=\<close>.\<close>

fun jsMul :: "jsNumber \<Rightarrow> jsNumber \<Rightarrow> jsNumber" where
  "jsMul (Finite a) (Finite b) = toDouble (a * b)"
| "jsMul NaN _ = NaN"
| "jsMul _ NaN = NaN"
| "jsMul (Finite a) PosInfinity = (if a = 0 then NaN else if 0 < a then PosInfinity else NegInfinity)"
| "jsMul (Finite a) NegInfinity = (if a = 0 then NaN else if 0 < a then NegInfinity else PosInfinity)"
| "jsMul PosInfinity (Finite b) = (if b = 0 then NaN else if 0 < b then PosInfinity else NegInfinity)"
| "jsMul NegInfinity (Finite b) = (if b = 0 then NaN else if 0 < b then NegInfinity else PosInfinity)"
| "jsMul PosInfinity PosInfinity = PosInfinity"
| "jsMul PosInfinity NegInfinity = NegInfinity"
| "jsMul NegInfinity PosInfinity = NegInfinity"
| "jsMul NegInfinity NegInfinity = PosInfinity"

fun jsAdd :: "jsNumber \<Rightarrow> jsNumber \<Rightarrow> jsNumber" where
  "jsAdd (Finite a) (Finite b) = toDouble (a + b)"
| "jsAdd NaN _ = NaN"
| "jsAdd _ NaN = NaN"
| "jsAdd PosInfinity NegInfinity = NaN"
| "jsAdd NegInfinity PosInfinity = NaN"
| "jsAdd PosInfinity _ = PosInfinity"
| "jsAdd _ PosInfinity = PosInfinity"
| "jsAdd NegInfinity _ = NegInfinity"
| "jsAdd _ NegInfinity = NegInfinity"

fun jsLe :: "jsNumber \<Rightarrow> jsNumber \<Rightarrow> bool" where
  "jsLe (Finite a) (Finite b) = (a \<le> b)"
| "jsLe (Finite a) PosInfinity = True"
| "jsLe (Finite a) NegInfinity = False"
| "jsLe (Finite a) NaN = False"
| "jsLe PosInfinity b = (b = PosInfinity)"
| "jsLe NegInfinity b = (b \<noteq> NaN)"
| "jsLe NaN b = False"

text \<open>\<open>Math.round\<close>: the nearest integer, a tie going up; it is exact on a double.\<close>

fun mathRound :: "jsNumber \<Rightarrow> jsNumber" where
  "mathRound (Finite x) = Finite (of_int \<lfloor>x + 1 / 2\<rfloor>)"
| "mathRound n = n"

section \<open>Plutchik emotions (frontend/types/plutchikEmotions.ts)\<close>

text \<open>
  The angles, wheel positions and intensity values of the tables are integers and are kept
  as \<open>int\<close>; their differences, \<open>Math.abs\<close> and \<open>Math.min\<close> are exact. Scores, points and the
  combined emotion distance are JavaScript numbers. The display-only fields \<open>nameJa\<close> and
  \<open>emoji\<close> of an emotion are left out, and \<open>color\<close> likewise. The field \<open>id\<close> is called
  \<open>id_emotion\<close>, since \<open>id\<close> is the identity function of HOL.
\<close>

datatype IntensityLevel = weak | medium | strong

record PlutchikEmotion =
  id_emotion :: string
  axis :: string
  intensity :: IntensityLevel
  nameEn :: string
  angle :: int

text \<open>\<open>mkEmotion\<close> writes one object literal of the table: id, axis, intensity, nameEn, angle.\<close>

definition mkEmotion :: "string \<Rightarrow> string \<Rightarrow> IntensityLevel \<Rightarrow> string \<Rightarrow> int \<Rightarrow> PlutchikEmotion" where
  "mkEmotion i a l n g = \<lparr>id_emotion = i, axis = a, intensity = l, nameEn = n, angle = g\<rparr>"

definition PLUTCHIK_EMOTIONS_3_LAYER :: "PlutchikEmotion list" where
  "PLUTCHIK_EMOTIONS_3_LAYER =
    [mkEmotion ''joy_strong'' ''joy'' strong ''Ecstasy'' 0,
     mkEmotion ''joy_medium'' ''joy'' medium ''Joy'' 0,
     mkEmotion ''joy_weak'' ''joy'' weak ''Serenity'' 0,
     mkEmotion ''trust_strong'' ''trust'' strong ''Admiration'' 45,
     mkEmotion ''trust_medium'' ''trust'' medium ''Trust'' 45,
     mkEmotion ''trust_weak'' ''trust'' weak ''Acceptance'' 45,
     mkEmotion ''fear_strong'' ''fear'' strong ''Terror'' 90,
     mkEmotion ''fear_medium'' ''fear'' medium ''Fear'' 90,
     mkEmotion ''fear_weak'' ''fear'' weak ''Apprehension'' 90,
     mkEmotion ''surprise_strong'' ''surprise'' strong ''Amazement'' 135,
     mkEmotion ''surprise_medium'' ''surprise'' medium ''Surprise'' 135,
     mkEmotion ''surprise_weak'' ''surprise'' weak ''Distraction'' 135,
     mkEmotion ''sadness_strong'' ''sadness'' strong ''Grief'' 180,
     mkEmotion ''sadness_medium'' ''sadness'' medium ''Sadness'' 180,
     mkEmotion ''sadness_weak'' ''sadness'' weak ''Pensiveness'' 180,
     mkEmotion ''disgust_strong'' ''disgust'' strong ''Loathing'' 225,
     mkEmotion ''disgust_medium'' ''disgust'' medium ''Disgust'' 225,
     mkEmotion ''disgust_weak'' ''disgust'' weak ''Boredom'' 225,
     mkEmotion ''anger_strong'' ''anger'' strong ''Rage'' 270,
     mkEmotion ''anger_medium'' ''anger'' medium ''Anger'' 270,
     mkEmotion ''anger_weak'' ''anger'' weak ''Annoyance'' 270,
     mkEmotion ''anticipation_strong'' ''anticipation'' strong ''Vigilance'' 315,
     mkEmotion ''anticipation_medium'' ''anticipation'' medium ''Anticipation'' 315,
     mkEmotion ''anticipation_weak'' ''anticipation'' weak ''Interest'' 315]"

text \<open>\<open>Array.prototype.find\<close>: the first element with the given id, or \<open>undefined\<close>.\<close>

definition getEmotionById :: "string \<Rightarrow> PlutchikEmotion option" where
  "getEmotionById i = find (\<lambda>emotion. id_emotion emotion = i) PLUTCHIK_EMOTIONS_3_LAYER"

text \<open>The ids of the 24 defined emotions.\<close>

definition definedEmotionIds :: "string set" where
  "definedEmotionIds = set (map id_emotion PLUTCHIK_EMOTIONS_3_LAYER)"

text \<open>\<open>intensityLevels.indexOf\<close> on \<open>['weak', 'medium', 'strong']\<close>.\<close>

fun intensityIndex :: "IntensityLevel \<Rightarrow> int" where
  "intensityIndex weak = 0"
| "intensityIndex medium = 1"
| "intensityIndex strong = 2"

text \<open>
  The local \<open>axisDistance\<close> of \<open>calculateEmotionDistance\<close>:
  \<open>Math.min(angleDiff, 360 - angleDiff) / 45\<close>.
\<close>

definition angleAxisDistance :: "PlutchikEmotion \<Rightarrow> PlutchikEmotion \<Rightarrow> jsNumber" where
  "angleAxisDistance emotion1 emotion2 =
    (let angleDiff = \<bar>angle emotion1 - angle emotion2\<bar>
     in toDouble (of_int (min angleDiff (360 - angleDiff)) / 45))"

text \<open>\<open>axisDistance + (intensityDistance * 0.5)\<close>, each operation rounded.\<close>

definition calculateEmotionDistance :: "PlutchikEmotion \<Rightarrow> PlutchikEmotion \<Rightarrow> jsNumber" where
  "calculateEmotionDistance emotion1 emotion2 =
    (let axisDistance = angleAxisDistance emotion1 emotion2;
         intensityDistance = \<bar>intensityIndex (intensity emotion1) - intensityIndex (intensity emotion2)\<bar>
     in jsAdd axisDistance (jsMul (Finite (of_int intensityDistance)) (toDouble (5 / 10))))"

section \<open>Three-layer scoring (frontend/utils/plutchikScoring3Layer.ts)\<close>

datatype jsError = InvalidAxis string string | InvalidEmotionIDs string string

definition AXIS_POSITIONS :: "string \<rightharpoonup> int" where
  "AXIS_POSITIONS = map_of
    [(''joy'', 0), (''trust'', 1), (''fear'', 2), (''surprise'', 3),
     (''sadness'', 4), (''disgust'', 5), (''anger'', 6), (''anticipation'', 7)]"

fun INTENSITY_VALUES :: "IntensityLevel \<Rightarrow> int" where
  "INTENSITY_VALUES weak = 0"
| "INTENSITY_VALUES medium = 1"
| "INTENSITY_VALUES strong = 2"

text \<open>
  A \<open>throw\<close> is the left summand; the lookup of a missing key is \<open>undefined\<close>. The
  lookup tables are maps of their own keys: a key that a JavaScript object inherits from
  \<open>Object.prototype\<close> (such as \<open>constructor\<close>) is outside the model.
\<close>

definition calculateAxisDistance :: "string \<Rightarrow> string \<Rightarrow> jsError + int" where
  "calculateAxisDistance axis1 axis2 =
    (case (AXIS_POSITIONS axis1, AXIS_POSITIONS axis2) of
       (Some pos1, Some pos2) \<Rightarrow>
         if pos1 = pos2 then Inr 0
         else (let directDistance = \<bar>pos1 - pos2\<bar>;
                   circularDistance = 8 - directDistance
               in Inr (min directDistance circularDistance))
     | _ \<Rightarrow> Inl (InvalidAxis axis1 axis2))"

definition calculateIntensityDistance :: "IntensityLevel \<Rightarrow> IntensityLevel \<Rightarrow> int" where
  "calculateIntensityDistance intensity1 intensity2 =
    \<bar>INTENSITY_VALUES intensity1 - INTENSITY_VALUES intensity2\<bar>"

datatype relationship = exact | same_axis | adjacent_axis | opposite_axis | distant_axis

datatype intensityMatch = exact_intensity | close | far

definition getAxisRelationship :: "string \<Rightarrow> string \<Rightarrow> jsError + relationship" where
  "getAxisRelationship axis1 axis2 =
    (if axis1 = axis2 then Inr same_axis
     else case calculateAxisDistance axis1 axis2 of
       Inl e \<Rightarrow> Inl e
     | Inr distance \<Rightarrow>
         Inr (if distance = 1 then adjacent_axis
              else if distance = 4 then opposite_axis
              else distant_axis))"

definition getIntensityMatch :: "IntensityLevel \<Rightarrow> IntensityLevel \<Rightarrow> intensityMatch" where
  "getIntensityMatch intensity1 intensity2 =
    (let distance = calculateIntensityDistance intensity1 intensity2
     in if distance = 0 then exact_intensity
        else if distance = 1 then close
        else far)"

record PlutchikScoringResult3Layer =
  score :: jsNumber
  axisDistance :: int
  intensityDistance :: int
  totalDistance :: jsNumber
  relationship :: relationship
  intensityMatch :: intensityMatch
  maxScore :: jsNumber

text \<open>
  The nested \<open>switch\<close> of \<open>calculatePlutchikScore3Layer\<close> that assigns \<open>score\<close>,
  starting from \<open>let score = 0\<close>: a combination with no \<open>case\<close> leaves the 0. A decimal
  literal such as \<open>0.85\<close> denotes the double nearest to it, and \<open>maxScore * 0.85\<close> is the
  rounded product of two doubles. The parameters \<open>maxScore\<close> and \<open>basePoints\<close> are always
  given: a caller that omits them passes the defaults 100 and 10.
\<close>

fun baseScore :: "relationship \<Rightarrow> intensityMatch \<Rightarrow> jsNumber \<Rightarrow> jsNumber" where
  "baseScore same_axis close m = mathRound (jsMul m (toDouble (85 / 100)))"
| "baseScore same_axis far m = mathRound (jsMul m (toDouble (70 / 100)))"
| "baseScore adjacent_axis exact_intensity m = mathRound (jsMul m (toDouble (60 / 100)))"
| "baseScore adjacent_axis close m = mathRound (jsMul m (toDouble (45 / 100)))"
| "baseScore adjacent_axis far m = mathRound (jsMul m (toDouble (30 / 100)))"
| "baseScore opposite_axis exact_intensity m = mathRound (jsMul m (toDouble (10 / 100)))"
| "baseScore opposite_axis close m = mathRound (jsMul m (toDouble (5 / 100)))"
| "baseScore opposite_axis far m = Finite 0"
| "baseScore distant_axis exact_intensity m = mathRound (jsMul m (toDouble (25 / 100)))"
| "baseScore distant_axis close m = mathRound (jsMul m (toDouble (15 / 100)))"
| "baseScore distant_axis far m = mathRound (jsMul m (toDouble (5 / 100)))"
| "baseScore _ _ m = Finite 0"

definition calculatePlutchikScore3Layer ::
    "string \<Rightarrow> string \<Rightarrow> jsNumber \<Rightarrow> jsError + PlutchikScoringResult3Layer" where
  "calculatePlutchikScore3Layer correctEmotionId guessedEmotionId maxScore' =
    (case (getEmotionById correctEmotionId, getEmotionById guessedEmotionId) of
       (Some correctEmotion, Some guessedEmotion) \<Rightarrow>
         if correctEmotionId = guessedEmotionId then
           Inr \<lparr>score = maxScore', axisDistance = 0, intensityDistance = 0,
                totalDistance = Finite 0,
                relationship = exact, intensityMatch = exact_intensity, maxScore = maxScore'\<rparr>
         else
           (case calculateAxisDistance (axis correctEmotion) (axis guessedEmotion) of
              Inl e \<Rightarrow> Inl e
            | Inr axisDistance' \<Rightarrow>
               (let intensityDistance' =
                      calculateIntensityDistance (intensity correctEmotion) (intensity guessedEmotion);
                    totalDistance' = calculateEmotionDistance correctEmotion guessedEmotion
                in case getAxisRelationship (axis correctEmotion) (axis guessedEmotion) of
                     Inl e \<Rightarrow> Inl e
                   | Inr relationship' \<Rightarrow>
                      (let intensityMatch' =
                             getIntensityMatch (intensity correctEmotion) (intensity guessedEmotion)
                       in Inr \<lparr>score = baseScore relationship' intensityMatch' maxScore',
                               axisDistance = axisDistance',
                               intensityDistance = intensityDistance',
                               totalDistance = totalDistance',
                               relationship = relationship',
                               intensityMatch = intensityMatch',
                               maxScore = maxScore'\<rparr>)))
     | _ \<Rightarrow> Inl (InvalidEmotionIDs correctEmotionId guessedEmotionId))"

text \<open>
  The \<open>for ... of Object.values(votes)\<close> loop of \<open>calculateSpeakerBonus3Layer\<close>, with
  \<open>totalBonus\<close> as the accumulator; a \<open>throw\<close> inside the loop leaves it.
\<close>

fun speakerBonusLoop ::
    "string \<Rightarrow> string list \<Rightarrow> jsNumber \<Rightarrow> jsNumber \<Rightarrow> jsError + jsNumber" where
  "speakerBonusLoop correctEmotionId [] basePoints totalBonus = Inr totalBonus"
| "speakerBonusLoop correctEmotionId (vote # rest) basePoints totalBonus =
    (case calculatePlutchikScore3Layer correctEmotionId vote basePoints of
       Inl e \<Rightarrow> Inl e
     | Inr res \<Rightarrow>
         speakerBonusLoop correctEmotionId rest basePoints (jsAdd totalBonus (score res)))"

text \<open>
  \<open>votes\<close> is a \<open>Record<string, string>\<close> from player to vote: the list of its entries, in
  the order in which \<open>Object.values\<close> enumerates them.
\<close>

definition calculateSpeakerBonus3Layer ::
    "string \<Rightarrow> (string \<times> string) list \<Rightarrow> jsNumber \<Rightarrow> jsError + jsNumber" where
  "calculateSpeakerBonus3Layer correctEmotionId votes basePoints =
    speakerBonusLoop correctEmotionId (map snd votes) basePoints (Finite 0)"

section \<open>Round scoring of the server\<close>

text \<open>
  Modelled from the spec: the score update that the server makes when a round ends is not
  among the sources (the backend is documented, not included). Sections 4.1 and 8 of the
  specification and the README give it: each listener whose vote equals the target emotion
  gains 1 point, and the speaker gains 1 point per listener who voted correctly. \<open>votes\<close>
  maps each voting listener to the chosen emotion and never contains the speaker.
\<close>

definition addPoint :: "string \<Rightarrow> (string \<Rightarrow> int) \<Rightarrow> (string \<Rightarrow> int)" where
  "addPoint player sc = sc(player := sc player + 1)"

fun scoreRound ::
    "string \<Rightarrow> string \<Rightarrow> (string \<times> string) list \<Rightarrow> (string \<Rightarrow> int) \<Rightarrow> (string \<Rightarrow> int)" where
  "scoreRound targetEmotion speaker [] sc = sc"
| "scoreRound targetEmotion speaker ((listener, vote) # rest) sc =
    scoreRound targetEmotion speaker rest
      (if vote = targetEmotion then addPoint speaker (addPoint listener sc) else sc)"

text \<open>Table check used below: the axis of an emotion has a wheel position that matches its angle.\<close>

definition axisOk :: "PlutchikEmotion \<Rightarrow> bool" where
  "axisOk e = (case AXIS_POSITIONS (axis e) of
                 Some p \<Rightarrow> 0 \<le> p \<and> p < 8 \<and> angle e = 45 * p
               | None \<Rightarrow> False)"

section \<open>Voice processing patterns (voiceProcessing.ts)\<close>

datatype VoiceProcessingPattern = fast_high | slow_low | pitch_up | tempo_up | emotion_reverse

text \<open>
  The \<open>description\<close> strings are Japanese display text: the fixed text of a pattern is
  \<open>PatternText\<close>, the template string that embeds the emotion id is \<open>ReversalText\<close>.
\<close>

datatype descriptionText = PatternText VoiceProcessingPattern | ReversalText string

record VoiceProcessingConfig =
  pattern :: VoiceProcessingPattern
  pitch :: rat
  tempo :: rat
  description :: descriptionText

fun VOICE_PROCESSING_PATTERNS :: "VoiceProcessingPattern \<Rightarrow> VoiceProcessingConfig" where
  "VOICE_PROCESSING_PATTERNS fast_high =
     \<lparr>pattern = fast_high, pitch = 2, tempo = 15 / 10, description = PatternText fast_high\<rparr>"
| "VOICE_PROCESSING_PATTERNS slow_low =
     \<lparr>pattern = slow_low, pitch = - 3, tempo = 8 / 10, description = PatternText slow_low\<rparr>"
| "VOICE_PROCESSING_PATTERNS pitch_up =
     \<lparr>pattern = pitch_up, pitch = 3, tempo = 1, description = PatternText pitch_up\<rparr>"
| "VOICE_PROCESSING_PATTERNS tempo_up =
     \<lparr>pattern = tempo_up, pitch = 0, tempo = 15 / 10, description = PatternText tempo_up\<rparr>"
| "VOICE_PROCESSING_PATTERNS emotion_reverse =
     \<lparr>pattern = emotion_reverse, pitch = 0, tempo = 1, description = PatternText emotion_reverse\<rparr>"

text \<open>\<open>Object.values(VOICE_PROCESSING_PATTERNS)\<close>, in the order of the keys.\<close>

definition patternValues :: "VoiceProcessingConfig list" where
  "patternValues = map VOICE_PROCESSING_PATTERNS [fast_high, slow_low, pitch_up, tempo_up, emotion_reverse]"

text \<open>An entry \<open>{ pitch, tempo }\<close> of the reversal map is the pair \<open>(pitch, tempo)\<close>.\<close>

definition EMOTION_REVERSAL_MAP :: "string \<rightharpoonup> rat \<times> rat" where
  "EMOTION_REVERSAL_MAP = map_of
    [(''joy'', (- 3, 8 / 10)), (''joy_strong'', (- 3, 8 / 10)),
     (''joy_medium'', (- 3, 8 / 10)), (''joy_weak'', (- 3, 8 / 10)),
     (''anger'', (- 2, 85 / 100)), (''anger_strong'', (- 2, 85 / 100)),
     (''anger_medium'', (- 2, 85 / 100)), (''anger_weak'', (- 2, 85 / 100)),
     (''trust'', (- (15 / 10), 9 / 10)), (''trust_strong'', (- (15 / 10), 9 / 10)),
     (''trust_medium'', (- (15 / 10), 9 / 10)), (''trust_weak'', (- (15 / 10), 9 / 10)),
     (''anticipation'', (2, 14 / 10)), (''anticipation_strong'', (2, 14 / 10)),
     (''anticipation_medium'', (2, 14 / 10)), (''anticipation_weak'', (2, 14 / 10)),
     (''fear'', (2, 16 / 10)), (''fear_strong'', (2, 16 / 10)),
     (''fear_medium'', (2, 16 / 10)), (''fear_weak'', (2, 16 / 10)),
     (''sadness'', (3, 14 / 10)), (''sadness_strong'', (3, 14 / 10)),
     (''sadness_medium'', (3, 14 / 10)), (''sadness_weak'', (3, 14 / 10)),
     (''disgust'', (2, 12 / 10)), (''disgust_strong'', (2, 12 / 10)),
     (''disgust_medium'', (2, 12 / 10)), (''disgust_weak'', (2, 12 / 10)),
     (''surprise'', (- 1, 9 / 10)), (''surprise_strong'', (- 1, 9 / 10)),
     (''surprise_medium'', (- 1, 9 / 10)), (''surprise_weak'', (- 1, 9 / 10))]"

text \<open>
  The second argument is the value that \<open>Math.random()\<close> returns if it is called. An index
  outside the array reads \<open>undefined\<close>, here \<open>None\<close>.
\<close>

definition getVoiceProcessingForEmotion :: "string \<Rightarrow> rat \<Rightarrow> VoiceProcessingConfig option" where
  "getVoiceProcessingForEmotion emotionId rnd =
    (case EMOTION_REVERSAL_MAP emotionId of
       Some reversal \<Rightarrow>
         Some \<lparr>pattern = emotion_reverse, pitch = fst reversal, tempo = snd reversal,
               description = ReversalText emotionId\<rparr>
     | None \<Rightarrow>
         (let patterns = filter (\<lambda>p. pattern p \<noteq> emotion_reverse) patternValues;
              i = \<lfloor>rnd * of_nat (length patterns)\<rfloor>
          in if 0 \<le> i \<and> i < int (length patterns) then Some (patterns ! nat i) else None))"

section \<open>Player identity in local storage (utils/playerStorage.ts)\<close>

definition PLAYER_ID_KEY :: string where
  "PLAYER_ID_KEY = ''emoguchi_player_id''"

definition PLAYER_NAME_KEY :: string where
  "PLAYER_NAME_KEY = ''emoguchi_player_name''"

text \<open>
  The environment of the helpers: whether \<open>window\<close> is defined (it is not during server-side
  rendering) and the contents of \<open>localStorage\<close>.
\<close>

record Browser =
  hasWindow :: bool
  localStorage :: "string \<rightharpoonup> string"

text \<open>
  The second argument is the value that \<open>crypto.randomUUID()\<close> returns if it is called.
  \<open>!playerId\<close> holds for \<open>null\<close> and for the empty string. The calls of \<open>getItem\<close> and
  \<open>setItem\<close> are taken to succeed.
\<close>

definition getOrCreatePlayerId :: "Browser \<Rightarrow> string \<Rightarrow> string \<times> Browser" where
  "getOrCreatePlayerId env randomUUID =
    (if \<not> hasWindow env then (randomUUID, env)
     else case localStorage env PLAYER_ID_KEY of
       None \<Rightarrow> (randomUUID, env\<lparr>localStorage := (localStorage env)(PLAYER_ID_KEY \<mapsto> randomUUID)\<rparr>)
     | Some playerId \<Rightarrow>
         if playerId = [] then
           (randomUUID, env\<lparr>localStorage := (localStorage env)(PLAYER_ID_KEY \<mapsto> randomUUID)\<rparr>)
         else (playerId, env))"

definition getPlayerId :: "Browser \<Rightarrow> string option" where
  "getPlayerId env = (if \<not> hasWindow env then None else localStorage env PLAYER_ID_KEY)"

definition savePlayerName :: "Browser \<Rightarrow> string \<Rightarrow> Browser" where
  "savePlayerName env name' =
    (if \<not> hasWindow env then env
     else env\<lparr>localStorage := (localStorage env)(PLAYER_NAME_KEY \<mapsto> name')\<rparr>)"

definition clearPlayerInfo :: "Browser \<Rightarrow> Browser" where
  "clearPlayerInfo env =
    (if \<not> hasWindow env then env
     else env\<lparr>localStorage := (localStorage env)(PLAYER_ID_KEY := None, PLAYER_NAME_KEY := None)\<rparr>)"

text \<open>The payload of the \<open>join_room\<close> message that \<open>joinRoom\<close> of useSocket.ts emits.\<close>

record JoinRoomMessage =
  join_roomId :: string
  join_playerName :: string
  join_playerId :: string

text \<open>
  \<open>joinRoom\<close>: the first argument after the environment says whether
  \<open>socketClient.getSocket()\<close> returned a socket; the result is the message emitted, if any.
\<close>

definition joinRoom ::
    "Browser \<Rightarrow> bool \<Rightarrow> string \<Rightarrow> string \<Rightarrow> string \<Rightarrow> JoinRoomMessage option \<times> Browser" where
  "joinRoom env socket randomUUID roomId' playerName' =
    (if socket then
       (let (playerId, env1) = getOrCreatePlayerId env randomUUID;
            env2 = savePlayerName env1 playerName'
        in (Some \<lparr>join_roomId = roomId', join_playerName = playerName', join_playerId = playerId\<rparr>,
            env2))
     else (None, env))"

section \<open>Game types (types/game.ts)\<close>

datatype GameMode = basic | advanced | wheel
datatype VoteType = choice4 | choice8 | wheel_vote
datatype SpeakerOrder = random | sequential
datatype GamePhase = waiting | in_round | result | closed

record RoomConfig =
  mode :: GameMode
  vote_type :: VoteType
  speaker_order :: SpeakerOrder
  vote_timeout :: int
  max_rounds :: int
  hard_mode :: "bool option"

text \<open>\<open>PlayerInfo\<close> is \<open>(name, score)\<close>, \<open>EmotionChoice\<close> is \<open>(id, name)\<close>.\<close>

type_synonym PlayerInfo = "string \<times> int"
type_synonym EmotionChoice = "string \<times> string"

record RoomState =
  roomId :: string
  players :: "(PlayerInfo + string) list"
  phase :: GamePhase
  config :: RoomConfig
  currentSpeaker :: "string option"

record Round =
  id_round :: string
  phrase :: string
  emotion_id :: string
  speaker_name :: string
  voting_choices :: "EmotionChoice list option"
  wheel_mode :: "bool option"

record RoundResult =
  round_id :: string
  correct_emotion :: string
  correctEmotionId :: "string option"
  result_speaker_name :: string
  scores :: "(string \<times> int) list"
  votes :: "(string \<times> string) list"
  isGameComplete :: "bool option"
  completedRounds :: "int option"
  maxRounds :: "int option"
  completedCycles :: "int option"
  maxCycles :: "int option"

text \<open>An entry of \<open>rankings\<close> is \<open>(name, score, rank)\<close>.\<close>

record GameComplete =
  isComplete :: bool
  rankings :: "(string \<times> int \<times> int) list"
  totalRounds :: int
  totalCycles :: "int option"
  finalScores :: "(string \<times> int) list option"

section \<open>The client game store (stores/gameStore.ts)\<close>

text \<open>
  The store holds display strings in \<open>error\<close>; the model keeps which handler wrote the
  message and the data it was built from.
\<close>

datatype errorMessage =
    ConnectionFailed string
  | ServerError string string
  | VoteTimeoutNotice string
  | AudioProcessingFailed

record VoteTimer =
  startTime :: "string option"
  timeoutSeconds :: int
  isActive :: bool

type_synonym Blob = "nat list"

record GameStore =
  roomState :: "RoomState option"
  isConnected :: bool
  playerName :: string
  hostToken :: string
  currentRound :: "Round option"
  speakerEmotion :: "string option"
  playerVote :: "string option"
  lastResult :: "RoundResult option"
  gameComplete :: "GameComplete option"
  audioRecording :: "Blob option"
  audioUrl :: "string option"
  recordingInProgress :: bool
  isAudioProcessed :: bool
  isLoading :: bool
  error :: "errorMessage option"
  voteTimer :: VoteTimer

definition initialStore :: GameStore where
  "initialStore =
    \<lparr>roomState = None, isConnected = False, playerName = [], hostToken = [],
     currentRound = None, speakerEmotion = None, playerVote = None, lastResult = None,
     gameComplete = None, audioRecording = None, audioUrl = None,
     recordingInProgress = False, isAudioProcessed = False, isLoading = False, error = None,
     voteTimer = \<lparr>startTime = None, timeoutSeconds = 30, isActive = False\<rparr>\<rparr>"

text \<open>The actions: each \<open>set\<close> merges the given fields into the current state.\<close>

definition setRoomState :: "RoomState \<Rightarrow> GameStore \<Rightarrow> GameStore" where
  "setRoomState state s = s\<lparr>roomState := Some state\<rparr>"

definition setConnected :: "bool \<Rightarrow> GameStore \<Rightarrow> GameStore" where
  "setConnected connected' s = s\<lparr>isConnected := connected'\<rparr>"

definition setCurrentRound :: "Round option \<Rightarrow> GameStore \<Rightarrow> GameStore" where
  "setCurrentRound round' s = s\<lparr>currentRound := round', playerVote := None\<rparr>"

definition setSpeakerEmotion :: "string option \<Rightarrow> GameStore \<Rightarrow> GameStore" where
  "setSpeakerEmotion emotion s = s\<lparr>speakerEmotion := emotion\<rparr>"

definition setPlayerVote :: "string option \<Rightarrow> GameStore \<Rightarrow> GameStore" where
  "setPlayerVote vote s = s\<lparr>playerVote := vote\<rparr>"

definition setLastResult :: "RoundResult option \<Rightarrow> GameStore \<Rightarrow> GameStore" where
  "setLastResult res s = s\<lparr>lastResult := res\<rparr>"

definition setGameComplete :: "GameComplete option \<Rightarrow> GameStore \<Rightarrow> GameStore" where
  "setGameComplete gc s = s\<lparr>gameComplete := gc\<rparr>"

definition setAudioUrl :: "string option \<Rightarrow> GameStore \<Rightarrow> GameStore" where
  "setAudioUrl url s = s\<lparr>audioUrl := url\<rparr>"

definition setAudioProcessed :: "bool \<Rightarrow> GameStore \<Rightarrow> GameStore" where
  "setAudioProcessed processed s = s\<lparr>isAudioProcessed := processed\<rparr>"

definition setError :: "errorMessage option \<Rightarrow> GameStore \<Rightarrow> GameStore" where
  "setError err s = s\<lparr>error := err\<rparr>"

text \<open>\<open>timeoutSeconds = 30\<close> is the default of a parameter that is not passed.\<close>

definition setVoteTimer :: "string option \<Rightarrow> int option \<Rightarrow> GameStore \<Rightarrow> GameStore" where
  "setVoteTimer startTime' timeoutSeconds' s =
    s\<lparr>voteTimer :=
        \<lparr>startTime = startTime',
         timeoutSeconds = (case timeoutSeconds' of None \<Rightarrow> 30 | Some t \<Rightarrow> t),
         isActive = (startTime' \<noteq> None)\<rparr>\<rparr>"

definition stopVoteTimer :: "GameStore \<Rightarrow> GameStore" where
  "stopVoteTimer s = s\<lparr>voteTimer := (voteTimer s)\<lparr>isActive := False\<rparr>\<rparr>"

definition reset :: "GameStore \<Rightarrow> GameStore" where
  "reset s = initialStore"

section \<open>Socket event handlers (hooks/useSocket.ts)\<close>

text \<open>
  The handlers are registered once, in an effect with an empty dependency list. The variable
  \<open>store\<close> they close over is the state object of the render that mounted the hook: a read
  such as \<open>store.roomState\<close> sees that snapshot, while every action writes the current
  state. A handler that reads from \<open>store\<close> takes the snapshot as its first argument; the
  current state is the last argument of every handler.
\<close>

record RoundStartData =
  start_roundId :: string
  start_phrase :: string
  start_speakerName :: string
  start_votingChoices :: "EmotionChoice list option"

record SpeakerEmotionData =
  data_emotion :: "string option"
  data_emotionId :: "string option"

record GameCompleteData =
  data_rankings :: "(string \<times> int \<times> int) list option"
  data_totalRounds :: "int option"
  data_totalCycles :: "int option"
  data_finalScores :: "(string \<times> int) list option"

record AudioReceivedData =
  audio :: Blob
  audio_speaker_name :: string
  is_processed :: "bool option"
  voting_started_at :: "string option"
  vote_timeout_seconds :: "int option"

text \<open>
  The events the hook listens to. \<open>Audio_received\<close> carries, besides the payload, the
  outcome of building the blob and calling \<open>URL.createObjectURL\<close>: the URL, or \<open>None\<close> when
  that threw. \<open>Vote_timeout_elapsed\<close> is the callback that the \<open>vote_timeout\<close> handler
  schedules with \<open>setTimeout\<close>.
\<close>

datatype SocketEvent =
    Connect
  | Disconnect
  | Connect_error string
  | Connected string
  | Room_state RoomState
  | Player_joined string
  | Player_reconnected string
  | Player_left string
  | Left_room
  | Player_disconnected string
  | Round_start RoundStartData
  | Speaker_emotion SpeakerEmotionData
  | Round_result RoundResult
  | Game_complete GameCompleteData
  | Audio_received AudioReceivedData "string option"
  | Vote_timeout string
  | Vote_timeout_elapsed
  | Error_event string string

definition on_connect :: "GameStore \<Rightarrow> GameStore" where
  "on_connect s = setError None (setConnected True s)"

definition on_disconnect :: "GameStore \<Rightarrow> GameStore" where
  "on_disconnect s = setConnected False s"

definition on_connect_error :: "string \<Rightarrow> GameStore \<Rightarrow> GameStore" where
  "on_connect_error msg s = setError (Some (ConnectionFailed msg)) s"

definition on_room_state :: "RoomState \<Rightarrow> GameStore \<Rightarrow> GameStore" where
  "on_room_state data s =
    (let s1 = setRoomState data s
     in if phase data = waiting
        then setAudioProcessed False (setAudioUrl None (setGameComplete None s1))
        else s1)"

definition on_left_room :: "GameStore \<Rightarrow> GameStore" where
  "on_left_room s = reset s"

text \<open>\<open>data.votingChoices || []\<close>: an array is truthy, a missing field gives \<open>[]\<close>.\<close>

definition on_round_start :: "RoundStartData \<Rightarrow> GameStore \<Rightarrow> GameStore" where
  "on_round_start data s =
    (let round' = \<lparr>id_round = start_roundId data,
                   phrase = start_phrase data,
                   emotion_id = [],
                   speaker_name = start_speakerName data,
                   voting_choices =
                     Some (case start_votingChoices data of None \<Rightarrow> [] | Some cs \<Rightarrow> cs),
                   wheel_mode = None\<rparr>
     in setError None
          (setAudioProcessed False
            (setAudioUrl None
              (setLastResult None
                (setCurrentRound (Some round') s)))))"

text \<open>\<open>data.emotion || data.emotionId\<close>: a missing or empty \<open>emotion\<close> is falsy.\<close>

definition on_speaker_emotion :: "SpeakerEmotionData \<Rightarrow> GameStore \<Rightarrow> GameStore" where
  "on_speaker_emotion data s =
    (let emotionToSet =
           (case data_emotion data of
              Some e \<Rightarrow> if e \<noteq> [] then Some e else data_emotionId data
            | None \<Rightarrow> data_emotionId data)
     in setSpeakerEmotion emotionToSet s)"

definition on_round_result :: "GameStore \<Rightarrow> RoundResult \<Rightarrow> GameStore \<Rightarrow> GameStore" where
  "on_round_result store data s =
    (let s1 = stopVoteTimer
                (setSpeakerEmotion None
                  (setCurrentRound None
                    (setLastResult (Some data) s)))
     in if isGameComplete data = Some True then s1
        else (case roomState store of
                Some currentRoomState \<Rightarrow> setRoomState (currentRoomState\<lparr>phase := waiting\<rparr>) s1
              | None \<Rightarrow> s1))"

text \<open>\<open>x || d\<close> on a missing field gives the default; \<open>0 || 0\<close> is 0 as well.\<close>

definition on_game_complete :: "GameStore \<Rightarrow> GameCompleteData \<Rightarrow> GameStore \<Rightarrow> GameStore" where
  "on_game_complete store data s =
    (let gameCompleteData =
           \<lparr>isComplete = True,
            rankings = (case data_rankings data of None \<Rightarrow> [] | Some rs \<Rightarrow> rs),
            totalRounds = (case data_totalRounds data of None \<Rightarrow> 0 | Some n \<Rightarrow> n),
            totalCycles = Some (case data_totalCycles data of None \<Rightarrow> 0 | Some n \<Rightarrow> n),
            finalScores = Some (case data_finalScores data of None \<Rightarrow> [] | Some fs \<Rightarrow> fs)\<rparr>;
         s1 = setGameComplete (Some gameCompleteData) s
     in case roomState store of
          Some currentRoomState \<Rightarrow> setRoomState (currentRoomState\<lparr>phase := closed\<rparr>) s1
        | None \<Rightarrow> s1)"

text \<open>
  The \<open>try\<close> block: when the conversion throws, nothing after it runs and the \<open>catch\<close>
  sets the error. \<open>data.voting_started_at && data.vote_timeout_seconds\<close> is truthy when the
  string is present and not empty and the number is present and not 0.
\<close>

definition on_audio_received :: "AudioReceivedData \<Rightarrow> string option \<Rightarrow> GameStore \<Rightarrow> GameStore" where
  "on_audio_received data objectUrl s =
    (let s1 = setError None s
     in case objectUrl of
          None \<Rightarrow> setError (Some AudioProcessingFailed) s1
        | Some audioUrl' \<Rightarrow>
            (let s2 = setAudioProcessed (case is_processed data of None \<Rightarrow> False | Some b \<Rightarrow> b)
                        (setAudioUrl (Some audioUrl') s1)
             in case (voting_started_at data, vote_timeout_seconds data) of
                  (Some t, Some n) \<Rightarrow>
                    if t \<noteq> [] \<and> n \<noteq> 0 then setVoteTimer (Some t) (Some n) s2 else s2
                | _ \<Rightarrow> s2))"

definition on_vote_timeout :: "string \<Rightarrow> GameStore \<Rightarrow> GameStore" where
  "on_vote_timeout msg s = setError (Some (VoteTimeoutNotice msg)) s"

definition on_vote_timeout_elapsed :: "GameStore \<Rightarrow> GameStore" where
  "on_vote_timeout_elapsed s = setError None s"

definition on_error :: "string \<Rightarrow> string \<Rightarrow> GameStore \<Rightarrow> GameStore" where
  "on_error code msg s = setError (Some (ServerError code msg)) s"

text \<open>One step of the client: the handler of the event, applied to the current state.\<close>

fun handleEvent :: "GameStore \<Rightarrow> GameStore \<Rightarrow> SocketEvent \<Rightarrow> GameStore" where
  "handleEvent store s Connect = on_connect s"
| "handleEvent store s Disconnect = on_disconnect s"
| "handleEvent store s (Connect_error msg) = on_connect_error msg s"
| "handleEvent store s (Connected msg) = s"
| "handleEvent store s (Room_state data) = on_room_state data s"
| "handleEvent store s (Player_joined n) = s"
| "handleEvent store s (Player_reconnected n) = s"
| "handleEvent store s (Player_left n) = s"
| "handleEvent store s Left_room = on_left_room s"
| "handleEvent store s (Player_disconnected n) = s"
| "handleEvent store s (Round_start data) = on_round_start data s"
| "handleEvent store s (Speaker_emotion data) = on_speaker_emotion data s"
| "handleEvent store s (Round_result data) = on_round_result store data s"
| "handleEvent store s (Game_complete data) = on_game_complete store data s"
| "handleEvent store s (Audio_received data objectUrl) = on_audio_received data objectUrl s"
| "handleEvent store s (Vote_timeout msg) = on_vote_timeout msg s"
| "handleEvent store s Vote_timeout_elapsed = on_vote_timeout_elapsed s"
| "handleEvent store s (Error_event code msg) = on_error code msg s"

text \<open>A sequence of events, processed in order by the handlers of one mount.\<close>

definition processEvents :: "GameStore \<Rightarrow> GameStore \<Rightarrow> SocketEvent list \<Rightarrow> GameStore" where
  "processEvents store s evs = foldl (handleEvent store) s evs"

text \<open>The stored phase, if a room state is stored.\<close>

definition storedPhase :: "GameStore \<Rightarrow> GamePhase option" where
  "storedPhase s = map_option phase (roomState s)"

text \<open>The equivalence of section 8 of the specification, read on the client store.\<close>

definition phaseMatchesRound :: "GameStore \<Rightarrow> bool" where
  "phaseMatchesRound s = ((storedPhase s = Some in_round) = (currentRound s \<noteq> None))"

text \<open>An \<open>audio_received\<close> event whose audio converts and that carries timer information.\<close>

fun startsVoteTimer :: "SocketEvent \<Rightarrow> bool" where
  "startsVoteTimer (Audio_received data (Some u)) =
     (case (voting_started_at data, vote_timeout_seconds data) of
        (Some t, Some n) \<Rightarrow> t \<noteq> [] \<and> n \<noteq> 0
      | _ \<Rightarrow> False)"
| "startsVoteTimer _ = False"

text \<open>
  The events whose handlers contain a write of \<open>roomState\<close>: \<open>setRoomState\<close> in three of
  them, \<open>reset\<close> in the fourth. Whether a handler reaches its write depends on the payload
  and on what it reads from \<open>store\<close>.
\<close>

fun hasRoomStateWrite :: "SocketEvent \<Rightarrow> bool" where
  "hasRoomStateWrite (Room_state data) = True"
| "hasRoomStateWrite (Round_result data) = True"
| "hasRoomStateWrite (Game_complete data) = True"
| "hasRoomStateWrite Left_room = True"
| "hasRoomStateWrite _ = False"

section \<open>Sample payloads\<close>

text \<open>Concrete payloads, used where a statement is run on explicit data.\<close>

definition sampleConfig :: RoomConfig where
  "sampleConfig = \<lparr>mode = basic, vote_type = choice4, speaker_order = sequential,
                    vote_timeout = 30, max_rounds = 1, hard_mode = None\<rparr>"

definition sampleRoom :: "GamePhase \<Rightarrow> RoomState" where
  "sampleRoom ph = \<lparr>roomId = ''room1'', players = [Inl (''A'', 0), Inl (''B'', 0)], phase = ph,
                    config = sampleConfig, currentSpeaker = Some ''A''\<rparr>"

definition sampleRoundStart :: RoundStartData where
  "sampleRoundStart = \<lparr>start_roundId = ''r1'', start_phrase = ''hello'',
                        start_speakerName = ''A'', start_votingChoices = None\<rparr>"

definition sampleResult :: "bool option \<Rightarrow> RoundResult" where
  "sampleResult gameOver =
    \<lparr>round_id = ''r1'', correct_emotion = ''joy'', correctEmotionId = Some ''joy'',
     result_speaker_name = ''A'', scores = [(''A'', 1), (''B'', 1)], votes = [(''B'', ''joy'')],
     isGameComplete = gameOver, completedRounds = None, maxRounds = None,
     completedCycles = None, maxCycles = None\<rparr>"

definition sampleGameComplete :: GameCompleteData where
  "sampleGameComplete = \<lparr>data_rankings = Some [(''A'', 1, 1), (''B'', 1, 2)],
                          data_totalRounds = Some 2, data_totalCycles = Some 1,
                          data_finalScores = None\<rparr>"

definition sampleAudio :: AudioReceivedData where
  "sampleAudio = \<lparr>audio = [26, 69, 223, 163], audio_speaker_name = ''A'',
                   is_processed = Some False,
                   voting_started_at = Some ''2026-01-10T09:00:00Z'',
                   vote_timeout_seconds = Some 30\<rparr>"

text \<open>The store of a client that has received the room state of a room in a round.\<close>

definition joinedInRound :: GameStore where
  "joinedInRound = handleEvent initialStore initialStore (Room_state (sampleRoom in_round))"

text \<open>A score table in which every player has 0 points.\<close>

definition zeroScores :: "string \<Rightarrow> int" where
  "zeroScores player = 0"

text \<open>A browser whose local storage is empty.\<close>

definition freshBrowser :: Browser where
  "freshBrowser = \<lparr>hasWindow = True, localStorage = Map.empty\<rparr>"

section \<open>Facts about the rounding of doubles\<close>

declare log2floor.simps [simp del]

lemma log2floor_bounds: "0 < n \<Longrightarrow> 2 ^ log2floor n \<le> n \<and> n < 2 ^ Suc (log2floor n)"
proof (induction n rule: log2floor.induct)
  case (1 n)
  show ?case
  proof (cases "n < 2")
    case True
    with 1(2) have "n = 1" by simp
    then show ?thesis by (simp add: log2floor.simps)
  next
    case False
    then have h: "0 < n div 2" by simp
    have ih: "2 ^ log2floor (n div 2) \<le> n div 2 \<and> n div 2 < 2 ^ Suc (log2floor (n div 2))"
      using 1(1)[OF False h] .
    have eq: "log2floor n = Suc (log2floor (n div 2))"
      using False by (subst log2floor.simps) simp
    have a: "2 * (n div 2) \<le> n" by simp
    have b: "n < 2 * (n div 2) + 2" by presburger
    have i1: "2 ^ log2floor (n div 2) \<le> n div 2" using ih by simp
    have i2: "n div 2 < 2 * 2 ^ log2floor (n div 2)" using ih by simp
    have "2 * 2 ^ log2floor (n div 2) \<le> n" using i1 a by linarith
    moreover have "n < 2 * (2 * 2 ^ log2floor (n div 2))" using i2 b by linarith
    ultimately show ?thesis unfolding eq power_Suc by simp
  qed
qed

lemma binadeExponent_bounds:
  assumes "x \<noteq> 0"
  shows "2 powi (binadeExponent x) \<le> \<bar>x\<bar> \<and> \<bar>x\<bar> < 2 powi (binadeExponent x + 1)"
proof -
  obtain a b where ab: "quotient_of \<bar>x\<bar> = (a, b)" by (cases "quotient_of \<bar>x\<bar>")
  have bpos: "0 < b" using quotient_of_denom_pos[OF ab] .
  have xq: "\<bar>x\<bar> = of_int a / of_int b" using quotient_of_div[OF ab] .
  have xpos: "0 < \<bar>x\<bar>" using assms by simp
  have apos: "0 < a"
    using xpos bpos unfolding xq by (simp add: zero_less_divide_iff)
  define la where "la = log2floor (nat a)"
  define lb where "lb = log2floor (nat b)"
  have A: "2 ^ la \<le> nat a" "nat a < 2 ^ Suc la"
    using log2floor_bounds[of "nat a"] apos by (simp_all add: la_def)
  have B: "2 ^ lb \<le> nat b" "nat b < 2 ^ Suc lb"
    using log2floor_bounds[of "nat b"] bpos by (simp_all add: lb_def)
  have Ar: "(2::rat) ^ la \<le> of_int a" "(of_int a :: rat) < 2 ^ Suc la"
  proof -
    have "(of_nat (2 ^ la) :: rat) \<le> of_nat (nat a)" using A(1) by (simp only: of_nat_le_iff)
    then show "(2::rat) ^ la \<le> of_int a" using apos by simp
    have "(of_nat (nat a) :: rat) < of_nat (2 ^ Suc la)" using A(2) by (simp only: of_nat_less_iff)
    then show "(of_int a :: rat) < 2 ^ Suc la" using apos by simp
  qed
  have Br: "(2::rat) ^ lb \<le> of_int b" "(of_int b :: rat) < 2 ^ Suc lb"
  proof -
    have "(of_nat (2 ^ lb) :: rat) \<le> of_nat (nat b)" using B(1) by (simp only: of_nat_le_iff)
    then show "(2::rat) ^ lb \<le> of_int b" using bpos by simp
    have "(of_nat (nat b) :: rat) < of_nat (2 ^ Suc lb)" using B(2) by (simp only: of_nat_less_iff)
    then show "(of_int b :: rat) < 2 ^ Suc lb" using bpos by simp
  qed
  define d where "d = int la - int lb"
  have bp: "(0::rat) < of_int b" using bpos by simp
  have p2: "(2::rat) powi (d + 1) = 2 ^ Suc la / 2 ^ lb"
    unfolding d_def by (simp add: power_int_add power_int_diff)
  have p0: "(2::rat) powi (d - 1) = 2 ^ la / 2 ^ Suc lb"
    unfolding d_def by (simp add: power_int_add power_int_diff)
  have up: "\<bar>x\<bar> < 2 powi (d + 1)"
  proof -
    have "of_int a / of_int b < (2::rat) ^ Suc la / of_int b"
      using Ar(2) bp by (simp add: divide_strict_right_mono)
    also have "\<dots> \<le> 2 ^ Suc la / 2 ^ lb"
      using Br(1) by (simp add: frac_le)
    finally show ?thesis unfolding xq p2 .
  qed
  have lo: "2 powi (d - 1) \<le> \<bar>x\<bar>"
  proof -
    have "(2::rat) ^ la / 2 ^ Suc lb \<le> 2 ^ la / of_int b"
      using Br(2) bp by (simp add: frac_le)
    also have "\<dots> \<le> of_int a / of_int b"
      using Ar(1) bp by (simp add: divide_right_mono)
    finally show ?thesis unfolding xq p0 .
  qed
  have e: "binadeExponent x = (if 2 powi d \<le> \<bar>x\<bar> then d else d - 1)"
    unfolding binadeExponent_def ab by (simp add: Let_def d_def la_def lb_def)
  show ?thesis
  proof (cases "2 powi d \<le> \<bar>x\<bar>")
    case True
    then show ?thesis using e up by simp
  next
    case False
    then show ?thesis using e lo by simp
  qed
qed

lemma pow2_less_imp_less: "(2::rat) powi a < 2 powi b \<Longrightarrow> a < b"
proof (rule ccontr)
  assume "(2::rat) powi a < 2 powi b" "\<not> a < b"
  then have "b \<le> a" by simp
  then have "(2::rat) powi b \<le> 2 powi a" by (rule power_int_increasing) simp
  with \<open>(2::rat) powi a < 2 powi b\<close> show False by simp
qed

lemma binadeExponent_unique:
  assumes "2 powi e \<le> \<bar>x\<bar>" "\<bar>x\<bar> < 2 powi (e + 1)"
  shows "binadeExponent x = e"
proof -
  have "0 < (2::rat) powi e" by (rule zero_less_power_int) simp
  then have "0 < \<bar>x\<bar>" using assms(1) by linarith
  then have x0: "x \<noteq> 0" by simp
  note b = binadeExponent_bounds[OF x0]
  have "(2::rat) powi e < 2 powi (binadeExponent x + 1)" using assms(1) b by linarith
  then have 1: "e < binadeExponent x + 1" by (rule pow2_less_imp_less)
  have "(2::rat) powi (binadeExponent x) < 2 powi (e + 1)" using assms(2) b by linarith
  then have 2: "binadeExponent x < e + 1" by (rule pow2_less_imp_less)
  show ?thesis using 1 2 by linarith
qed

lemma roundHalfEven_error: "\<bar>of_int (roundHalfEven t) - t\<bar> \<le> 1 / 2"
proof -
  define f where "f = \<lfloor>t\<rfloor>"
  have lo: "of_int f \<le> t" and hi: "t < of_int f + 1" unfolding f_def by linarith+
  have "roundHalfEven t =
      (if t - of_int f < 1 / 2 then f else if 1 / 2 < t - of_int f then f + 1
       else if even f then f else f + 1)"
    unfolding roundHalfEven_def Let_def f_def ..
  then show ?thesis using lo hi by (auto simp: abs_if)
qed

lemma roundHalfEven_0 [simp]: "roundHalfEven 0 = 0"
  by (simp add: roundHalfEven_def)

lemma roundHalfEven_int [simp]: "roundHalfEven (of_int k) = k"
  by (simp add: roundHalfEven_def)

lemma roundHalfEven_nonneg: "0 \<le> t \<Longrightarrow> 0 \<le> roundHalfEven t"
  unfolding roundHalfEven_def Let_def by auto

lemma roundHalfEven_eq:
  "of_int n - 1 / 2 < t \<Longrightarrow> t < of_int n + 1 / 2 \<Longrightarrow> roundHalfEven t = n"
  using roundHalfEven_error[of t] by (auto simp: abs_if split: if_splits)

lemma quantum_pos: "0 < quantum x"
  by (simp add: quantum_def)

lemma quantum_le:
  assumes "x \<noteq> 0"
  shows "quantum x \<le> max (\<bar>x\<bar> / 2 ^ 52) (1 / 1024)"
proof (cases "- 1022 \<le> binadeExponent x")
  case True
  then have "quantum x = 2 powi (binadeExponent x) / 2 ^ 52"
    by (simp add: quantum_def max_def power_int_diff)
  also have "\<dots> \<le> \<bar>x\<bar> / 2 ^ 52"
    using binadeExponent_bounds[OF assms] by (simp add: divide_right_mono)
  finally show ?thesis by simp
next
  case False
  then have m: "max (binadeExponent x) (- 1022) - 52 \<le> - 10" by simp
  have "quantum x \<le> 2 powi (- 10)"
    unfolding quantum_def by (rule power_int_increasing[OF m]) simp
  also have "\<dots> = 1 / 1024" by (simp add: power_int_minus_divide)
  finally show ?thesis by simp
qed

text \<open>The value of a rounded non-negative number: finite, non-negative, within half a quantum.\<close>

lemma toDouble_nonneg:
  assumes "0 \<le> x" "x \<le> 7 / 8 * overflowThreshold"
  shows "\<exists>y. toDouble x = Finite y \<and> 0 \<le> y \<and> \<bar>y - x\<bar> \<le> quantum x / 2"
proof -
  define q where "q = quantum x"
  define N where "N = roundHalfEven (x / q)"
  define y where "y = of_int N * q"
  have qpos: "0 < q" unfolding q_def by (rule quantum_pos)
  have N0: "0 \<le> N" unfolding N_def using assms(1) qpos by (intro roundHalfEven_nonneg) simp
  have y0: "0 \<le> y" unfolding y_def using N0 qpos by simp
  have "\<bar>of_int N - x / q\<bar> \<le> 1 / 2" unfolding N_def by (rule roundHalfEven_error)
  then have "\<bar>of_int N - x / q\<bar> * q \<le> 1 / 2 * q" using qpos by (simp add: mult_right_mono)
  moreover have "\<bar>of_int N - x / q\<bar> * q = \<bar>y - x\<bar>"
  proof -
    have "\<bar>of_int N - x / q\<bar> * q = \<bar>(of_int N - x / q) * q\<bar>"
      using qpos by (simp add: abs_mult)
    also have "(of_int N - x / q) * q = y - x"
      using qpos by (simp add: y_def field_simps)
    finally show ?thesis .
  qed
  ultimately have err: "\<bar>y - x\<bar> \<le> q / 2" by simp
  have T0: "0 < overflowThreshold" unfolding overflowThreshold_def by (rule zero_less_power) simp
  have small: "y < overflowThreshold"
  proof (cases "x = 0")
    case True
    then have "y = 0" by (simp add: y_def N_def)
    then show ?thesis using T0 by simp
  next
    case False
    have ql: "q \<le> max (x / 2 ^ 52) (1 / 1024)"
      using quantum_le[OF False] assms(1) unfolding q_def by simp
    have "(1::rat) \<le> overflowThreshold"
      unfolding overflowThreshold_def by (rule one_le_power) simp
    then have "q \<le> overflowThreshold / 16"
      using ql assms by (auto simp: le_max_iff_disj)
    then show ?thesis using err assms T0 by (auto simp: abs_if split: if_splits)
  qed
  have yeq: "of_int (roundHalfEven (x / quantum x)) * quantum x = y"
    by (simp add: y_def N_def q_def)
  have "toDouble x = Finite y"
    unfolding toDouble_def Let_def yeq using small y0 T0 by auto
  then show ?thesis using y0 err unfolding q_def by blast
qed

text \<open>The coarse form used below: the rounded value is within a thousandth, relative and absolute.\<close>

lemma toDouble_coarse:
  assumes "0 \<le> x" "x \<le> 7 / 8 * overflowThreshold"
  shows "\<exists>y. toDouble x = Finite y \<and> 0 \<le> y \<and> x - x / 1000 - 1 / 1000 \<le> y \<and>
           y \<le> x + x / 1000 + 1 / 1000"
proof -
  obtain y where y: "toDouble x = Finite y" "0 \<le> y" "\<bar>y - x\<bar> \<le> quantum x / 2"
    using toDouble_nonneg[OF assms] by blast
  have "quantum x / 2 \<le> x / 1000 + 1 / 1000"
  proof (cases "x = 0")
    case True
    have "quantum 0 = 2 powi (max (binadeExponent 0) (- 1022) - 52)" by (simp add: quantum_def)
    also have "\<dots> \<le> 2 powi (- 10)"
    proof (rule power_int_increasing)
      have "binadeExponent 0 = - 1"
        by (simp add: binadeExponent_def log2floor.simps)
      then show "max (binadeExponent 0) (- 1022) - 52 \<le> - 10" by simp
    qed simp
    also have "\<dots> = 1 / 1024" by (simp add: power_int_minus_divide)
    finally show ?thesis using True by simp
  next
    case False
    have "quantum x \<le> max (x / 2 ^ 52) (1 / 1024)"
      using quantum_le[OF False] assms(1) by simp
    moreover have "x / 2 ^ 52 \<le> x / 1000" using assms(1) by (simp add: frac_le)
    ultimately show ?thesis using assms(1) by (auto simp: le_max_iff_disj)
  qed
  then show ?thesis using y by (auto simp: abs_if split: if_splits)
qed

lemma isDouble_less: "isDouble m \<Longrightarrow> \<bar>m\<bar> < overflowThreshold"
  unfolding isDouble_def toDouble_def Let_def by (auto split: if_splits)

lemma toDouble_exact:
  assumes "x / quantum x = of_int K" "\<bar>x\<bar> < overflowThreshold"
  shows "toDouble x = Finite x"
proof -
  have "of_int (roundHalfEven (x / quantum x)) * quantum x = x"
    using quantum_pos[of x] unfolding assms(1) roundHalfEven_int
    by (simp flip: assms(1))
  then show ?thesis unfolding toDouble_def Let_def using assms(2) by auto
qed

lemma quantum_below:
  assumes that: "E \<le> 53" and "x \<noteq> 0" "\<bar>x\<bar> < 2 powi E"
  shows "\<exists>i. int i = 52 - max (binadeExponent x) (- 1022) \<and> quantum x = 1 / 2 ^ i"
proof -
  have "(2::rat) powi (binadeExponent x) < 2 powi E"
    using binadeExponent_bounds[OF assms(2)] assms(3) by linarith
  then have "binadeExponent x < E" by (rule pow2_less_imp_less)
  then have j: "0 \<le> 52 - max (binadeExponent x) (- 1022)" using that by simp
  define i where "i = nat (52 - max (binadeExponent x) (- 1022))"
  have ii: "int i = 52 - max (binadeExponent x) (- 1022)" using j by (simp add: i_def)
  have "quantum x = 2 powi (- int i)" unfolding quantum_def ii by simp
  also have "\<dots> = 1 / 2 ^ i" by (simp add: power_int_minus_divide)
  finally show ?thesis using ii by blast
qed

lemma threshold_ge: "(2::rat) ^ 53 \<le> overflowThreshold"
  unfolding overflowThreshold_def by (rule power_increasing) simp_all

text \<open>Integers below \<open>2 ^ 53\<close> in magnitude are doubles.\<close>

lemma toDouble_int:
  assumes "\<bar>n\<bar> < 2 ^ 53"
  shows "toDouble (of_int n) = Finite (of_int n)"
proof (cases "n = 0")
  case True
  have "toDouble 0 = Finite 0"
    unfolding toDouble_def Let_def using threshold_ge by simp
  then show ?thesis using True by simp
next
  case False
  have b: "\<bar>of_int n :: rat\<bar> < 2 powi 53"
  proof -
    have "(of_int \<bar>n\<bar> :: rat) < of_int (2 ^ 53)" using assms by (simp only: of_int_less_iff)
    then show ?thesis by simp
  qed
  have nz: "(of_int n :: rat) \<noteq> 0" using False by simp
  obtain i where i: "quantum (of_int n) = 1 / 2 ^ i"
    using quantum_below[OF _ nz b] by auto
  have "(of_int n :: rat) / quantum (of_int n) = of_int (n * 2 ^ i)"
    unfolding i by simp
  moreover have "\<bar>of_int n :: rat\<bar> < overflowThreshold"
    using b threshold_ge by simp
  ultimately show ?thesis by (rule toDouble_exact)
qed

text \<open>Halves of integers below \<open>2 ^ 52\<close> in magnitude are doubles.\<close>

lemma toDouble_half:
  assumes "\<bar>n\<bar> < 2 ^ 53"
  shows "toDouble (of_int n / 2) = Finite (of_int n / 2)"
proof (cases "n = 0")
  case True
  have "toDouble 0 = Finite 0"
    unfolding toDouble_def Let_def using threshold_ge by simp
  then show ?thesis using True by simp
next
  case False
  define x :: rat where "x = of_int n / 2"
  have b: "\<bar>x\<bar> < 2 powi 52"
  proof -
    have "(of_int \<bar>n\<bar> :: rat) < of_int (2 ^ 53)" using assms by (simp only: of_int_less_iff)
    then show ?thesis by (simp add: x_def)
  qed
  have nz: "x \<noteq> 0" using False by (simp add: x_def)
  obtain i where i: "int i = 52 - max (binadeExponent x) (- 1022)" "quantum x = 1 / 2 ^ i"
    using quantum_below[OF _ nz b] by auto
  have "(2::rat) powi (binadeExponent x) < 2 powi 52"
    using binadeExponent_bounds[OF nz] b by linarith
  then have "binadeExponent x < 52" by (rule pow2_less_imp_less)
  then have "0 < i" using i(1) by simp
  then obtain k where k: "i = Suc k" by (cases i) auto
  have "x / quantum x = of_int (n * 2 ^ k)"
    unfolding i(2) k by (simp add: x_def)
  moreover have "\<bar>x\<bar> < overflowThreshold"
  proof -
    have "\<bar>x\<bar> < 2 ^ 53" using b by simp
    then show ?thesis using threshold_ge by linarith
  qed
  ultimately have "toDouble x = Finite x" by (rule toDouble_exact)
  then show ?thesis unfolding x_def .
qed

text \<open>Evaluating a rounding on explicit data.\<close>

lemma toDouble_value:
  assumes "2 powi e \<le> \<bar>x\<bar>" "\<bar>x\<bar> < 2 powi (e + 1)" "- 1022 \<le> e"
    and "of_int n - 1 / 2 < x / 2 powi (e - 52)" "x / 2 powi (e - 52) < of_int n + 1 / 2"
    and "\<bar>of_int n * 2 powi (e - 52)\<bar> < (2::rat) ^ 53"
  shows "toDouble x = Finite (of_int n * 2 powi (e - 52))"
proof -
  have e: "binadeExponent x = e" using assms(1,2) by (rule binadeExponent_unique)
  have q: "quantum x = 2 powi (e - 52)" unfolding quantum_def e using assms(3) by simp
  have r: "roundHalfEven (x / 2 powi (e - 52)) = n" using assms(4,5) by (rule roundHalfEven_eq)
  have "\<bar>of_int n * 2 powi (e - 52)\<bar> < overflowThreshold"
    using assms(6) threshold_ge by linarith
  then show ?thesis unfolding toDouble_def Let_def q r by auto
qed

lemma literal_85: "toDouble (17 / 20) = Finite (7656119366529843 / 2 ^ 53)"
  using toDouble_value[of "- 1" "17 / 20" 7656119366529843]
  by (simp add: power_int_minus_divide)

lemma literal_70: "toDouble (7 / 10) = Finite (3152519739159347 / 2 ^ 52)"
  using toDouble_value[of "- 1" "7 / 10" 6305039478318694]
  by (simp add: power_int_minus_divide)

lemma product_10_85: "toDouble (10 * (7656119366529843 / 2 ^ 53)) = Finite (17 / 2)"
  using toDouble_value[of 3 "10 * (7656119366529843 / 2 ^ 53)" 4785074604081152]
  by (simp add: power_int_minus_divide)

lemma product_45_70:
  "toDouble (45 * (3152519739159347 / 2 ^ 52)) = Finite (8866461766385663 / 2 ^ 48)"
  using toDouble_value[of 4 "45 * (3152519739159347 / 2 ^ 52)" 8866461766385663]
  by (simp add: power_int_minus_divide)

section \<open>Facts about the emotion table and the scoring\<close>

lemma table_all: "list_all axisOk PLUTCHIK_EMOTIONS_3_LAYER"
  by (simp add: PLUTCHIK_EMOTIONS_3_LAYER_def mkEmotion_def AXIS_POSITIONS_def axisOk_def)

lemma table_size: "length PLUTCHIK_EMOTIONS_3_LAYER = 24"
  by (simp add: PLUTCHIK_EMOTIONS_3_LAYER_def)

lemma table_ids_distinct: "distinct (map id_emotion PLUTCHIK_EMOTIONS_3_LAYER)"
  by (simp add: PLUTCHIK_EMOTIONS_3_LAYER_def mkEmotion_def)

lemma table_axis:
  "e \<in> set PLUTCHIK_EMOTIONS_3_LAYER \<Longrightarrow>
     \<exists>p. AXIS_POSITIONS (axis e) = Some p \<and> 0 \<le> p \<and> p < 8 \<and> angle e = 45 * p"
  using table_all by (auto simp: list_all_iff axisOk_def split: option.splits)

lemma getEmotionById_Some:
  "getEmotionById i = Some e \<Longrightarrow> e \<in> set PLUTCHIK_EMOTIONS_3_LAYER \<and> id_emotion e = i"
  unfolding getEmotionById_def by (auto simp: find_Some_iff)

lemma getEmotionById_None:
  "getEmotionById i = None \<longleftrightarrow> i \<notin> definedEmotionIds"
  unfolding getEmotionById_def definedEmotionIds_def by (auto simp: find_None_iff)

lemma axis_distance_positions:
  "AXIS_POSITIONS a = Some p \<Longrightarrow> AXIS_POSITIONS b = Some q \<Longrightarrow>
     calculateAxisDistance a b = Inr (min \<bar>p - q\<bar> (8 - \<bar>p - q\<bar>))"
  by (simp add: calculateAxisDistance_def Let_def)

lemma axis_relationship_positions:
  "AXIS_POSITIONS a = Some p \<Longrightarrow> AXIS_POSITIONS b = Some q \<Longrightarrow>
     \<exists>rel. getAxisRelationship a b = Inr rel \<and> getAxisRelationship b a = Inr rel"
  by (auto simp: getAxisRelationship_def axis_distance_positions abs_minus_commute)

lemma intensity_match_sym: "getIntensityMatch i j = getIntensityMatch j i"
  by (simp add: getIntensityMatch_def calculateIntensityDistance_def abs_minus_commute)

lemma one_le_threshold: "1 \<le> overflowThreshold"
  unfolding overflowThreshold_def by (rule one_le_power) simp

text \<open>The tier literals, from \<open>0.05\<close> to \<open>0.85\<close>, denote doubles between 0.04 and 55/64.\<close>

lemma tier_literal:
  assumes "1 / 20 \<le> x" "x \<le> 17 / 20"
  shows "\<exists>c. toDouble x = Finite c \<and> 1 / 25 \<le> c \<and> c \<le> 55 / 64"
proof -
  have "0 \<le> x" "x \<le> 7 / 8 * overflowThreshold"
    using assms one_le_threshold by linarith+
  then obtain c where "toDouble x = Finite c" "x - x / 1000 - 1 / 1000 \<le> c"
      "c \<le> x + x / 1000 + 1 / 1000"
    using toDouble_coarse[of x] by blast
  then show ?thesis using assms by (intro exI[of _ c]) auto
qed

text \<open>A tier product on a finite non-negative maximum, rounded to an integer.\<close>

lemma tier_product:
  assumes "isDouble m" "0 \<le> m" "1 / 20 \<le> x" "x \<le> 17 / 20"
  shows "\<exists>s. mathRound (jsMul (Finite m) (toDouble x)) = Finite (of_int s) \<and> 0 \<le> s \<and>
           of_int s \<le> m * (861 / 1000) + 502 / 1000"
proof -
  obtain c where c: "toDouble x = Finite c" "1 / 25 \<le> c" "c \<le> 55 / 64"
    using tier_literal[OF assms(3,4)] by blast
  have mT: "m < overflowThreshold" using isDouble_less[OF assms(1)] assms(2) by simp
  have p0: "0 \<le> m * c" using assms(2) c(2) by simp
  have p1: "m * c \<le> m * (55 / 64)" using assms(2) c(3) by (intro mult_left_mono) simp_all
  have p2: "m * c \<le> 7 / 8 * overflowThreshold" using p1 mT assms(2) by linarith
  obtain y where y: "toDouble (m * c) = Finite y" "0 \<le> y"
      "y \<le> m * c + m * c / 1000 + 1 / 1000"
    using toDouble_coarse[OF p0 p2] by blast
  define s where "s = \<lfloor>y + 1 / 2\<rfloor>"
  have "mathRound (jsMul (Finite m) (toDouble x)) = Finite (of_int s)"
    by (simp add: c(1) y(1) s_def)
  moreover have "0 \<le> s" unfolding s_def using y(2) by simp
  moreover have "of_int s \<le> m * (861 / 1000) + 502 / 1000"
  proof -
    have "of_int s \<le> y + 1 / 2" unfolding s_def by linarith
    then show ?thesis using y(3) p1 assms(2) by linarith
  qed
  ultimately show ?thesis by blast
qed

lemma tier_product_infinity:
  assumes "1 / 20 \<le> x" "x \<le> 17 / 20"
  shows "mathRound (jsMul PosInfinity (toDouble x)) = PosInfinity"
proof -
  obtain c where c: "toDouble x = Finite c" "1 / 25 \<le> c"
    using tier_literal[OF assms] by blast
  then show ?thesis by simp
qed

lemma baseScore_finite:
  assumes "isDouble m" "0 \<le> m"
  shows "\<exists>s. baseScore rel im (Finite m) = Finite (of_int s) \<and> 0 \<le> s \<and>
           of_int s \<le> m * (861 / 1000) + 502 / 1000"
proof -
  note T = tier_product[OF assms]
  have z: "\<exists>s. Finite 0 = Finite (of_int s) \<and> 0 \<le> s \<and> (of_int s :: rat) \<le> m * (861 / 1000) + 502 / 1000"
    using assms(2) by (intro exI[of _ 0]) simp
  show ?thesis
    using z T[of "85 / 100"] T[of "70 / 100"] T[of "60 / 100"] T[of "45 / 100"] T[of "30 / 100"]
      T[of "10 / 100"] T[of "5 / 100"] T[of "25 / 100"] T[of "15 / 100"]
    by (cases rel; cases im) simp_all
qed

lemma baseScore_infinity:
  "baseScore rel im PosInfinity = PosInfinity \<or> baseScore rel im PosInfinity = Finite 0"
proof -
  note T = tier_product_infinity
  show ?thesis
    using T[of "85 / 100"] T[of "70 / 100"] T[of "60 / 100"] T[of "45 / 100"] T[of "30 / 100"]
      T[of "10 / 100"] T[of "5 / 100"] T[of "25 / 100"] T[of "15 / 100"]
    by (cases rel; cases im) simp_all
qed

text \<open>What the scoring function returns on two defined ids.\<close>

lemma score_defined_ids:
  assumes c: "c \<in> definedEmotionIds" and g: "g \<in> definedEmotionIds"
  shows "\<exists>r r' rel im.
           calculatePlutchikScore3Layer c g m = Inr r \<and>
           calculatePlutchikScore3Layer g c m = Inr r' \<and>
           score r = (if c = g then m else baseScore rel im m) \<and>
           score r' = score r"
proof -
  obtain ce where ce: "getEmotionById c = Some ce"
    using c getEmotionById_None[of c] by (cases "getEmotionById c") auto
  obtain ge where ge: "getEmotionById g = Some ge"
    using g getEmotionById_None[of g] by (cases "getEmotionById g") auto
  obtain p where p: "AXIS_POSITIONS (axis ce) = Some p"
    using table_axis getEmotionById_Some[OF ce] by blast
  obtain q where q: "AXIS_POSITIONS (axis ge) = Some q"
    using table_axis getEmotionById_Some[OF ge] by blast
  obtain rel where rel: "getAxisRelationship (axis ce) (axis ge) = Inr rel"
      "getAxisRelationship (axis ge) (axis ce) = Inr rel"
    using axis_relationship_positions[OF p q] by blast
  show ?thesis
  proof (cases "c = g")
    case True
    then show ?thesis
      using ce by (simp add: calculatePlutchikScore3Layer_def)
  next
    case False
    then have "g \<noteq> c" by simp
    then show ?thesis
      using False ce ge rel axis_distance_positions[OF p q] axis_distance_positions[OF q p]
        intensity_match_sym[of "intensity ce" "intensity ge"]
      by (auto simp add: calculatePlutchikScore3Layer_def Let_def)
  qed
qed

lemmas score_eval_defs = calculatePlutchikScore3Layer_def getEmotionById_def
  PLUTCHIK_EMOTIONS_3_LAYER_def mkEmotion_def calculateAxisDistance_def AXIS_POSITIONS_def
  getAxisRelationship_def getIntensityMatch_def calculateIntensityDistance_def Let_def

lemmas id_defs = definedEmotionIds_def PLUTCHIK_EMOTIONS_3_LAYER_def mkEmotion_def

text \<open>A tier product on an explicit maximum, when the exact product is not near a tie.\<close>

lemma tier_value:
  assumes "1 / 20 \<le> x" "x \<le> 17 / 20" "0 \<le> m" "m \<le> 1000"
    and "of_int n - 1 / 2 \<le> m * (x - x / 1000 - 1 / 1000) * (999 / 1000) - 1 / 1000"
    and "m * (x + x / 1000 + 1 / 1000) * (1001 / 1000) + 1 / 1000 < of_int n + 1 / 2"
  shows "mathRound (jsMul (Finite m) (toDouble x)) = Finite (of_int n)"
proof -
  have x0: "0 \<le> x" "x \<le> 7 / 8 * overflowThreshold"
    using assms(1,2) one_le_threshold by linarith+
  obtain c where c: "toDouble x = Finite c" "0 \<le> c" "x - x / 1000 - 1 / 1000 \<le> c"
      "c \<le> x + x / 1000 + 1 / 1000"
    using toDouble_coarse[OF x0] by blast
  have p0: "0 \<le> m * c" using assms(3) c(2) by simp
  have c1: "c \<le> 1" using c(4) assms(2) by linarith
  have "m * c \<le> m * 1" using assms(3) c1 by (intro mult_left_mono) simp_all
  then have p2: "m * c \<le> 7 / 8 * overflowThreshold"
    using assms(4) threshold_ge by simp
  obtain y where y: "toDouble (m * c) = Finite y" "m * c - m * c / 1000 - 1 / 1000 \<le> y"
      "y \<le> m * c + m * c / 1000 + 1 / 1000"
    using toDouble_coarse[OF p0 p2] by blast
  have lo: "m * (x - x / 1000 - 1 / 1000) \<le> m * c"
    using assms(3) c(3) by (intro mult_left_mono) simp_all
  have hi: "m * c \<le> m * (x + x / 1000 + 1 / 1000)"
    using assms(3) c(4) by (intro mult_left_mono) simp_all
  have "of_int n \<le> y + 1 / 2" using assms(5) y(2) lo by linarith
  moreover have "y + 1 / 2 < of_int n + 1" using assms(6) y(3) hi by linarith
  ultimately have "\<lfloor>y + 1 / 2\<rfloor> = n" by linarith
  then show ?thesis by (simp add: c(1) y(1))
qed

lemma tier85_at_1: "mathRound (jsMul (Finite 1) (toDouble (17 / 20))) = Finite 1"
  using tier_value[of "17 / 20" 1 1] by simp

lemma tier85_at_2: "mathRound (jsMul (Finite 2) (toDouble (17 / 20))) = Finite 2"
  using tier_value[of "17 / 20" 2 2] by simp

lemma tier85_at_3: "mathRound (jsMul (Finite 3) (toDouble (17 / 20))) = Finite 3"
  using tier_value[of "17 / 20" 3 3] by simp

lemma tier85_at_three_quarters: "mathRound (jsMul (Finite (3 / 4)) (toDouble (17 / 20))) = Finite 1"
  using tier_value[of "17 / 20" "3 / 4" 1] by simp

lemma tier05_at_100: "mathRound (jsMul (Finite 100) (toDouble (1 / 20))) = Finite 5"
  using tier_value[of "1 / 20" 100 5] by simp

lemma tier_at_0:
  assumes "1 / 20 \<le> x" "x \<le> 17 / 20"
  shows "mathRound (jsMul (Finite 0) (toDouble x)) = Finite 0"
proof -
  obtain c where c: "toDouble x = Finite c" using tier_literal[OF assms] by blast
  have "toDouble 0 = Finite 0" using toDouble_int[of 0] by simp
  then show ?thesis by (simp add: c floor_eq_iff)
qed

text \<open>Two products that fall on or next to a tie, evaluated exactly.\<close>

lemma tier85_at_10: "mathRound (jsMul (Finite 10) (toDouble (17 / 20))) = Finite 9"
proof -
  have "jsMul (Finite 10) (toDouble (17 / 20)) = Finite (17 / 2)"
    by (simp only: literal_85 jsMul.simps product_10_85)
  then show ?thesis by (simp add: floor_eq_iff)
qed

lemma tier70_at_45: "mathRound (jsMul (Finite 45) (toDouble (7 / 10))) = Finite 31"
proof -
  have "jsMul (Finite 45) (toDouble (7 / 10)) = Finite (8866461766385663 / 2 ^ 48)"
    by (simp only: literal_70 jsMul.simps product_45_70)
  then show ?thesis by (simp add: floor_eq_iff)
qed

text \<open>
  The rounding of the code, not of exact arithmetic: \<open>45 * 0.70\<close> is the double
  31.499999999999996, so the score is 31, where the exact product 31.5 would round to 32.
\<close>

lemma score_45_same_axis_far:
  "map_sum id score (calculatePlutchikScore3Layer ''joy_strong'' ''joy_weak'' (Finite 45)) =
     Inr (Finite 31)"
  by (simp add: score_eval_defs tier70_at_45)

lemma min_scaled: "min (45 * a) (360 - 45 * a) = 45 * min a (8 - (a::int))"
  unfolding min_def by auto

lemma intensityIndex_range: "0 \<le> intensityIndex l \<and> intensityIndex l \<le> 2"
  by (cases l) simp_all

lemma angle_distance_positions:
  assumes "angle e1 = 45 * p" "angle e2 = 45 * q" "0 \<le> p" "p < 8" "0 \<le> q" "q < 8"
  shows "angleAxisDistance e1 e2 = Finite (of_int (min \<bar>p - q\<bar> (8 - \<bar>p - q\<bar>)))"
proof -
  define d where "d = min \<bar>p - q\<bar> (8 - \<bar>p - q\<bar>)"
  have dr: "\<bar>d\<bar> < 2 ^ 53" using assms(3-6) unfolding d_def by (auto simp: min_def abs_if)
  have a: "\<bar>angle e1 - angle e2\<bar> = 45 * \<bar>p - q\<bar>"
    using assms(1,2) by (auto simp: abs_if)
  have m: "min (45 * \<bar>p - q\<bar>) (360 - 45 * \<bar>p - q\<bar>) = 45 * d"
    unfolding d_def by (rule min_scaled)
  have "(of_int (45 * d) :: rat) / 45 = of_int d" by simp
  then have "angleAxisDistance e1 e2 = toDouble (of_int d)"
    unfolding angleAxisDistance_def Let_def a m by (simp only:)
  then show ?thesis using toDouble_int[OF dr] unfolding d_def by simp
qed

lemma emotion_distance_value:
  assumes "angleAxisDistance e1 e2 = Finite (of_int d)" "0 \<le> d" "d \<le> 4"
  shows "calculateEmotionDistance e1 e2 =
           Finite (of_int d + of_int \<bar>intensityIndex (intensity e1) - intensityIndex (intensity e2)\<bar> / 2)"
proof -
  define i where "i = \<bar>intensityIndex (intensity e1) - intensityIndex (intensity e2)\<bar>"
  have ir: "0 \<le> i" "i \<le> 2"
    using intensityIndex_range[of "intensity e1"] intensityIndex_range[of "intensity e2"]
    unfolding i_def by (auto simp: abs_if)
  have half: "toDouble (5 / 10) = Finite (1 / 2)" using toDouble_half[of 1] by simp
  have prod: "toDouble (of_int i * (1 / 2)) = Finite (of_int i / 2)"
    using toDouble_half[of i] ir by simp
  have "\<bar>2 * d + i\<bar> < 2 ^ 53" using assms(2,3) ir by simp
  then have "toDouble (of_int (2 * d + i) / 2) = Finite (of_int (2 * d + i) / 2)"
    by (rule toDouble_half)
  moreover have "(of_int (2 * d + i) :: rat) / 2 = of_int d + of_int i / 2" by simp
  ultimately have sum: "toDouble (of_int d + of_int i / 2) = Finite (of_int d + of_int i / 2)"
    by (simp only:)
  show ?thesis
    unfolding calculateEmotionDistance_def Let_def assms(1) i_def[symmetric] half
    by (simp only: jsMul.simps jsAdd.simps prod sum)
qed

lemma toDouble_numeral [simp]:
  "\<bar>numeral w :: int\<bar> < 2 ^ 53 \<Longrightarrow> toDouble (numeral w) = Finite (numeral w)"
  using toDouble_int[of "numeral w"] by simp

text \<open>The credit of one vote, for any number of base points.\<close>

lemma vote_credit:
  assumes "E \<in> definedEmotionIds" "v \<in> definedEmotionIds"
  shows "\<exists>r. calculatePlutchikScore3Layer E v bp = Inr r \<and> (v = E \<longrightarrow> score r = bp)"
  using score_defined_ids[OF assms, of bp] by auto

text \<open>The credit of one vote, for integer base points.\<close>

lemma vote_credit_int:
  assumes "E \<in> definedEmotionIds" "v \<in> definedEmotionIds" "0 \<le> k" "k < 2 ^ 53"
  shows "\<exists>r s. calculatePlutchikScore3Layer E v (Finite (of_int k)) = Inr r \<and>
           score r = Finite (of_int s) \<and> 0 \<le> s \<and> s \<le> k \<and> (v = E \<longrightarrow> s = k)"
proof -
  obtain r rel im where r: "calculatePlutchikScore3Layer E v (Finite (of_int k)) = Inr r"
      "score r = (if E = v then Finite (of_int k) else baseScore rel im (Finite (of_int k)))"
    using score_defined_ids[OF assms(1,2), of "Finite (of_int k)"] by blast
  show ?thesis
  proof (cases "E = v")
    case True
    then show ?thesis using r assms(3) by auto
  next
    case False
    have d: "isDouble (of_int k)" "(0::rat) \<le> of_int k"
      using toDouble_int[of k] assms(3,4) by (simp_all add: isDouble_def)
    obtain s where s: "baseScore rel im (Finite (of_int k)) = Finite (of_int s)" "0 \<le> s"
        "of_int s \<le> (of_int k :: rat) * (861 / 1000) + 502 / 1000"
      using baseScore_finite[OF d] by blast
    have "(of_int s :: rat) < of_int k + 1" using s(3) d(2) by linarith
    then have "s < k + 1" by (simp flip: of_int_less_iff)
    then show ?thesis using r s False by auto
  qed
qed

lemma speakerBonusLoop_sum:
  assumes "E \<in> definedEmotionIds" "\<forall>v\<in>set vs. v \<in> definedEmotionIds"
  shows "\<exists>rs. list_all2 (\<lambda>v r. calculatePlutchikScore3Layer E v bp = Inr r \<and>
                              (v = E \<longrightarrow> score r = bp)) vs rs \<and>
              speakerBonusLoop E vs bp t = Inr (foldl jsAdd t (map score rs))"
  using assms(2)
proof (induction vs arbitrary: t)
  case Nil
  then show ?case by simp
next
  case (Cons v vs)
  obtain r where r: "calculatePlutchikScore3Layer E v bp = Inr r" "v = E \<longrightarrow> score r = bp"
    using vote_credit[OF assms(1), of v bp] Cons.prems by auto
  obtain rs where rs: "list_all2 (\<lambda>v r. calculatePlutchikScore3Layer E v bp = Inr r \<and>
                              (v = E \<longrightarrow> score r = bp)) vs rs"
      "speakerBonusLoop E vs bp (jsAdd t (score r)) = Inr (foldl jsAdd (jsAdd t (score r)) (map score rs))"
    using Cons.IH[of "jsAdd t (score r)"] Cons.prems by auto
  show ?case
    using r rs by (intro exI[of _ "r # rs"]) simp
qed

lemma speakerBonusLoop_int:
  assumes "E \<in> definedEmotionIds" "\<forall>v\<in>set vs. v \<in> definedEmotionIds" "0 \<le> k" "0 \<le> a"
    and "a + k * int (length vs) < 2 ^ 53"
  shows "\<exists>ss. list_all2 (\<lambda>v s. \<exists>r. calculatePlutchikScore3Layer E v (Finite (of_int k)) = Inr r \<and>
                              score r = Finite (of_int s) \<and> 0 \<le> s \<and> s \<le> k \<and>
                              (v = E \<longrightarrow> s = k)) vs ss \<and>
              speakerBonusLoop E vs (Finite (of_int k)) (Finite (of_int a)) =
                Inr (Finite (of_int (a + sum_list ss))) \<and>
              k * int (length (filter (\<lambda>v. v = E) vs)) \<le> sum_list ss \<and>
              sum_list ss \<le> k * int (length vs)"
  using assms(2,4,5)
proof (induction vs arbitrary: a)
  case Nil
  then show ?case by simp
next
  case (Cons v vs)
  have kn: "0 \<le> k * int (length vs)" using assms(3) by simp
  have k53: "k < 2 ^ 53" using Cons.prems(2,3) kn by (simp add: algebra_simps)
  obtain r s where r: "calculatePlutchikScore3Layer E v (Finite (of_int k)) = Inr r"
      "score r = Finite (of_int s)" "0 \<le> s" "s \<le> k" "v = E \<longrightarrow> s = k"
    using vote_credit_int[OF assms(1) _ assms(3) k53, of v] Cons.prems(1) by auto
  have as: "0 \<le> a + s" "a + s + k * int (length vs) < 2 ^ 53"
    using Cons.prems(2,3) r(3,4) by (simp_all add: algebra_simps)
  have "\<bar>a + s\<bar> < 2 ^ 53" using as kn by linarith
  then have add: "jsAdd (Finite (of_int a)) (Finite (of_int s)) = Finite (of_int (a + s))"
    using toDouble_int[of "a + s"] by simp
  obtain ss where ss: "list_all2 (\<lambda>v s. \<exists>r. calculatePlutchikScore3Layer E v (Finite (of_int k)) = Inr r \<and>
                              score r = Finite (of_int s) \<and> 0 \<le> s \<and> s \<le> k \<and>
                              (v = E \<longrightarrow> s = k)) vs ss"
      "speakerBonusLoop E vs (Finite (of_int k)) (Finite (of_int (a + s))) =
         Inr (Finite (of_int (a + s + sum_list ss)))"
      "k * int (length (filter (\<lambda>v. v = E) vs)) \<le> sum_list ss"
      "sum_list ss \<le> k * int (length vs)"
    using Cons.IH[OF _ as] Cons.prems(1) by auto
  have 1: "list_all2 (\<lambda>v s. \<exists>r. calculatePlutchikScore3Layer E v (Finite (of_int k)) = Inr r \<and>
                              score r = Finite (of_int s) \<and> 0 \<le> s \<and> s \<le> k \<and>
                              (v = E \<longrightarrow> s = k)) (v # vs) (s # ss)"
    using r ss(1) by auto
  have 2: "speakerBonusLoop E (v # vs) (Finite (of_int k)) (Finite (of_int a)) =
             Inr (Finite (of_int (a + sum_list (s # ss))))"
    using r(1,2) add ss(2) by (simp add: add.assoc)
  have 3: "k * int (length (filter (\<lambda>v. v = E) (v # vs))) \<le> sum_list (s # ss)"
    using r(3,5) ss(3) by (auto simp: algebra_simps)
  have 4: "sum_list (s # ss) \<le> k * int (length (v # vs))"
    using r(4) ss(4) by (simp add: algebra_simps)
  show ?case using 1 2 3 4 by blast
qed

text \<open>The round scoring of the specification.\<close>

lemma scoreRound_other:
  "q \<noteq> speaker \<Longrightarrow> q \<notin> fst ` set vts \<Longrightarrow> scoreRound E speaker vts sc q = sc q"
  by (induction vts arbitrary: sc) (auto simp: addPoint_def)

lemma scoreRound_speaker:
  "speaker \<notin> fst ` set vts \<Longrightarrow>
     scoreRound E speaker vts sc speaker =
       sc speaker + int (length (filter (\<lambda>pv. snd pv = E) vts))"
  by (induction vts arbitrary: sc) (auto simp: addPoint_def)

lemma scoreRound_listener:
  "distinct (map fst vts) \<Longrightarrow> speaker \<notin> fst ` set vts \<Longrightarrow> (p, v) \<in> set vts \<Longrightarrow>
     scoreRound E speaker vts sc p = sc p + (if v = E then 1 else 0)"
proof (induction vts arbitrary: sc)
  case Nil
  then show ?case by simp
next
  case (Cons pv vts)
  obtain p' v' where pv: "pv = (p', v')" by (cases pv)
  show ?case
  proof (cases "(p, v) = (p', v')")
    case True
    then have "p \<notin> fst ` set vts" "p \<noteq> speaker" using Cons.prems pv by auto
    then show ?thesis
      using True pv scoreRound_other[of p speaker vts E] by (auto simp: addPoint_def)
  next
    case False
    then have in_rest: "(p, v) \<in> set vts" using Cons.prems(3) pv by auto
    then have "p \<noteq> p'" "p \<noteq> speaker" using Cons.prems(1,2) pv by force+
    then show ?thesis
      using Cons.IH[OF _ _ in_rest] Cons.prems(1,2) pv by (auto simp: addPoint_def)
  qed
qed

lemma toDouble_0 [simp]: "toDouble 0 = Finite 0"
  using toDouble_int[of 0] by simp

lemma toDouble_1 [simp]: "toDouble 1 = Finite 1"
  using toDouble_int[of 1] by simp

lemma toDouble_numeral_half [simp]:
  "\<bar>numeral w :: int\<bar> < 2 ^ 53 \<Longrightarrow> toDouble (numeral w / 2) = Finite (numeral w / 2)"
  using toDouble_half[of "numeral w"] by simp

lemma toDouble_one_half [simp]: "toDouble (1 / 2) = Finite (1 / 2)"
  using toDouble_half[of 1] by simp

text \<open>The tiers of the scoring, read off at a maximum of 100.\<close>

lemma baseScore_at_100:
  "baseScore same_axis close (Finite 100) = Finite 85"
  "baseScore same_axis far (Finite 100) = Finite 70"
  "baseScore same_axis exact_intensity (Finite 100) = Finite 0"
  "baseScore adjacent_axis exact_intensity (Finite 100) = Finite 60"
  "baseScore adjacent_axis close (Finite 100) = Finite 45"
  "baseScore adjacent_axis far (Finite 100) = Finite 30"
  "baseScore opposite_axis exact_intensity (Finite 100) = Finite 10"
  "baseScore opposite_axis close (Finite 100) = Finite 5"
  "baseScore opposite_axis far (Finite 100) = Finite 0"
  "baseScore distant_axis exact_intensity (Finite 100) = Finite 25"
  "baseScore distant_axis close (Finite 100) = Finite 15"
  "baseScore distant_axis far (Finite 100) = Finite 5"
  using tier_value[of "85 / 100" 100 85] tier_value[of "70 / 100" 100 70]
    tier_value[of "60 / 100" 100 60] tier_value[of "45 / 100" 100 45]
    tier_value[of "30 / 100" 100 30] tier_value[of "10 / 100" 100 10]
    tier_value[of "5 / 100" 100 5] tier_value[of "25 / 100" 100 25]
    tier_value[of "15 / 100" 100 15]
  by simp_all

lemma bonus_sample:
  "calculateSpeakerBonus3Layer ''joy_strong''
     [(''B'', ''joy_strong''), (''C'', ''joy_medium''), (''D'', ''sadness_weak'')] (Finite 10) =
     Inr (Finite 19)"
  by (simp add: calculateSpeakerBonus3Layer_def score_eval_defs tier85_at_10)

section \<open>Claims about the scoring\<close>

text \<open>
  Claim C1, as amended. The round scoring of the specification: for a vote set with one vote
  per listener that does not contain the speaker, each listener whose vote equals the target
  emotion gains exactly 1 point, the speaker gains as many points as there are such votes,
  and no other score changes. The speaker-bonus computation \<open>calculateSpeakerBonus3Layer\<close> of
  the client, however, is graded: on a defined target and defined votes it returns the sum,
  added in vote order, of the scores that \<open>calculatePlutchikScore3Layer\<close> gives the votes with
  \<open>basePoints\<close> as the maximum, and a vote equal to the target scores exactly \<open>basePoints\<close>.
  For an integer \<open>basePoints\<close> of at least 0 whose product with the number of votes is below
  \<open>2^53\<close>, each vote scores an integer between 0 and \<open>basePoints\<close>, the bonus is the exact sum
  of these integers, and it lies between \<open>basePoints\<close> times the number of exact votes and
  \<open>basePoints\<close> times the number of votes.
\<close>

theorem round_scoring_and_speaker_bonus:
  "(distinct (map fst vts) \<and> speaker \<notin> fst ` set vts \<longrightarrow>
      (\<forall>p v. (p, v) \<in> set vts \<longrightarrow>
         scoreRound E speaker vts sc p = sc p + (if v = E then 1 else 0)) \<and>
      scoreRound E speaker vts sc speaker =
        sc speaker + int (length (filter (\<lambda>pv. snd pv = E) vts)) \<and>
      (\<forall>q. q \<noteq> speaker \<and> q \<notin> fst ` set vts \<longrightarrow> scoreRound E speaker vts sc q = sc q)) \<and>
   (E \<in> definedEmotionIds \<and> (\<forall>v\<in>snd ` set vts. v \<in> definedEmotionIds) \<longrightarrow>
      (\<exists>rs. list_all2 (\<lambda>v r. calculatePlutchikScore3Layer E v bp = Inr r \<and>
                               (v = E \<longrightarrow> score r = bp)) (map snd vts) rs \<and>
            calculateSpeakerBonus3Layer E vts bp = Inr (foldl jsAdd (Finite 0) (map score rs)))) \<and>
   (E \<in> definedEmotionIds \<and> (\<forall>v\<in>snd ` set vts. v \<in> definedEmotionIds) \<and>
    0 \<le> k \<and> k * int (length vts) < 2 ^ 53 \<longrightarrow>
      (\<exists>ss. list_all2 (\<lambda>v s. \<exists>r. calculatePlutchikScore3Layer E v (Finite (of_int k)) = Inr r \<and>
                                score r = Finite (of_int s) \<and> 0 \<le> s \<and> s \<le> k \<and>
                                (v = E \<longrightarrow> s = k)) (map snd vts) ss \<and>
            calculateSpeakerBonus3Layer E vts (Finite (of_int k)) =
              Inr (Finite (of_int (sum_list ss))) \<and>
            k * int (length (filter (\<lambda>pv. snd pv = E) vts)) \<le> sum_list ss \<and>
            sum_list ss \<le> k * int (length vts)))"
proof -
  have len: "length (filter (\<lambda>v. v = E) (map snd vts)) = length (filter (\<lambda>pv. snd pv = E) vts)"
    by (simp add: filter_map comp_def)
  have 1: "distinct (map fst vts) \<and> speaker \<notin> fst ` set vts \<longrightarrow>
      (\<forall>p v. (p, v) \<in> set vts \<longrightarrow>
         scoreRound E speaker vts sc p = sc p + (if v = E then 1 else 0)) \<and>
      scoreRound E speaker vts sc speaker =
        sc speaker + int (length (filter (\<lambda>pv. snd pv = E) vts)) \<and>
      (\<forall>q. q \<noteq> speaker \<and> q \<notin> fst ` set vts \<longrightarrow> scoreRound E speaker vts sc q = sc q)"
    using scoreRound_listener[of vts speaker _ _ E sc] scoreRound_speaker[of speaker vts E sc]
      scoreRound_other[of _ speaker vts E sc]
    by blast
  have 2: "\<exists>rs. list_all2 (\<lambda>v r. calculatePlutchikScore3Layer E v bp = Inr r \<and>
                               (v = E \<longrightarrow> score r = bp)) (map snd vts) rs \<and>
            calculateSpeakerBonus3Layer E vts bp = Inr (foldl jsAdd (Finite 0) (map score rs))"
    if "E \<in> definedEmotionIds" "\<forall>v\<in>snd ` set vts. v \<in> definedEmotionIds"
  proof -
    have vs: "\<forall>v\<in>set (map snd vts). v \<in> definedEmotionIds" using that(2) by simp
    show ?thesis
      using speakerBonusLoop_sum[OF that(1) vs, of bp "Finite 0"]
      by (simp add: calculateSpeakerBonus3Layer_def)
  qed
  have 3: "\<exists>ss. list_all2 (\<lambda>v s. \<exists>r. calculatePlutchikScore3Layer E v (Finite (of_int k)) = Inr r \<and>
                                score r = Finite (of_int s) \<and> 0 \<le> s \<and> s \<le> k \<and>
                                (v = E \<longrightarrow> s = k)) (map snd vts) ss \<and>
            calculateSpeakerBonus3Layer E vts (Finite (of_int k)) =
              Inr (Finite (of_int (sum_list ss))) \<and>
            k * int (length (filter (\<lambda>pv. snd pv = E) vts)) \<le> sum_list ss \<and>
            sum_list ss \<le> k * int (length vts)"
    if "E \<in> definedEmotionIds" "\<forall>v\<in>snd ` set vts. v \<in> definedEmotionIds"
      "0 \<le> k" "k * int (length vts) < 2 ^ 53"
  proof -
    have vs: "\<forall>v\<in>set (map snd vts). v \<in> definedEmotionIds" using that(2) by simp
    have b: "0 + k * int (length (map snd vts)) < 2 ^ 53" using that(4) by simp
    show ?thesis
      using speakerBonusLoop_int[OF that(1) vs that(3) _ b] len
      by (simp add: calculateSpeakerBonus3Layer_def)
  qed
  show ?thesis using 1 2 3 by blast
qed

text \<open>The statement above, run on explicit data.\<close>

theorem round_scoring_and_speaker_bonus_witness:
  "distinct (map fst [(''B'', ''joy''), (''C'', ''fear'')]) \<and>
   ''A'' \<notin> fst ` set [(''B'', ''joy''), (''C'', ''fear'')] \<and>
   scoreRound ''joy'' ''A'' [(''B'', ''joy''), (''C'', ''fear'')] zeroScores ''A'' = 1 \<and>
   scoreRound ''joy'' ''A'' [(''B'', ''joy''), (''C'', ''fear'')] zeroScores ''B'' = 1 \<and>
   scoreRound ''joy'' ''A'' [(''B'', ''joy''), (''C'', ''fear'')] zeroScores ''C'' = 0 \<and>
   ''joy_strong'' \<in> definedEmotionIds \<and> ''joy_medium'' \<in> definedEmotionIds \<and>
   ''sadness_weak'' \<in> definedEmotionIds \<and> (0::int) \<le> 10 \<and>
   10 * int (length [(''B'', ''joy_strong''), (''C'', ''joy_medium''), (''D'', ''sadness_weak'')])
     < 2 ^ 53 \<and>
   calculateSpeakerBonus3Layer ''joy_strong''
     [(''B'', ''joy_strong''), (''C'', ''joy_medium''), (''D'', ''sadness_weak'')] (Finite 10) =
     Inr (Finite 19) \<and>
   (\<exists>ss. list_all2 (\<lambda>v s. \<exists>r. calculatePlutchikScore3Layer ''joy_strong'' v (Finite 10) = Inr r \<and>
                             score r = Finite (of_int s) \<and> 0 \<le> s \<and> s \<le> 10 \<and>
                             (v = ''joy_strong'' \<longrightarrow> s = 10))
            [''joy_strong'', ''joy_medium'', ''sadness_weak''] ss \<and>
          sum_list ss = 19)"
proof -
  have d: "distinct (map fst [(''B'', ''joy''), (''C'', ''fear'')])"
    "''A'' \<notin> fst ` set [(''B'', ''joy''), (''C'', ''fear'')]" by simp_all
  have ids: "''joy_strong'' \<in> definedEmotionIds" "''joy_medium'' \<in> definedEmotionIds"
    "''sadness_weak'' \<in> definedEmotionIds"
    by (simp_all add: id_defs)
  have all: "\<forall>v\<in>snd ` set [(''B'', ''joy_strong''), (''C'', ''joy_medium''), (''D'', ''sadness_weak'')].
      v \<in> definedEmotionIds"
    using ids by simp
  note T1 = round_scoring_and_speaker_bonus[of "[(''B'', ''joy''), (''C'', ''fear'')]" "''A''"
      "''joy''" zeroScores]
  note T2 = round_scoring_and_speaker_bonus[of
      "[(''B'', ''joy_strong''), (''C'', ''joy_medium''), (''D'', ''sadness_weak'')]" "''A''"
      "''joy_strong''" zeroScores "Finite 10" 10, THEN conjunct2, THEN conjunct2, rule_format]
  have pre: "''joy_strong'' \<in> definedEmotionIds \<and>
      (\<forall>v\<in>snd ` set [(''B'', ''joy_strong''), (''C'', ''joy_medium''), (''D'', ''sadness_weak'')].
         v \<in> definedEmotionIds) \<and>
      (0::int) \<le> 10 \<and>
      10 * int (length [(''B'', ''joy_strong''), (''C'', ''joy_medium''), (''D'', ''sadness_weak'')])
        < 2 ^ 53"
    using ids by simp
  have r1: "scoreRound ''joy'' ''A'' [(''B'', ''joy''), (''C'', ''fear'')] zeroScores ''A'' = 1"
    "scoreRound ''joy'' ''A'' [(''B'', ''joy''), (''C'', ''fear'')] zeroScores ''B'' = 1"
    "scoreRound ''joy'' ''A'' [(''B'', ''joy''), (''C'', ''fear'')] zeroScores ''C'' = 0"
    using T1 d by (simp_all add: zeroScores_def)
  obtain ss where ss: "list_all2 (\<lambda>v s. \<exists>r. calculatePlutchikScore3Layer ''joy_strong'' v (Finite 10) = Inr r \<and>
                             score r = Finite (of_int s) \<and> 0 \<le> s \<and> s \<le> 10 \<and>
                             (v = ''joy_strong'' \<longrightarrow> s = 10))
            [''joy_strong'', ''joy_medium'', ''sadness_weak''] ss"
      "calculateSpeakerBonus3Layer ''joy_strong''
         [(''B'', ''joy_strong''), (''C'', ''joy_medium''), (''D'', ''sadness_weak'')] (Finite 10) =
         Inr (Finite (of_int (sum_list ss)))"
    using T2[OF pre] by auto
  have "sum_list ss = 19" using ss(2) bonus_sample by simp
  then show ?thesis using d ids r1 ss(1) bonus_sample by auto
qed

text \<open>
  Claim C1 as stated fails: a vote for \<open>joy_medium\<close> against the target \<open>joy_strong\<close> is not
  equal to the target, yet it earns the speaker 1 point of 1, and 9 points of 10.
\<close>

theorem speaker_bonus_partial_credit_counterexample:
  "''joy_medium'' \<noteq> ''joy_strong'' \<and>
   calculateSpeakerBonus3Layer ''joy_strong'' [(''B'', ''joy_medium'')] (Finite 1) =
     Inr (Finite 1) \<and>
   calculateSpeakerBonus3Layer ''joy_strong'' [(''B'', ''joy_medium'')] (Finite 10) =
     Inr (Finite 9)"
  by (simp add: calculateSpeakerBonus3Layer_def score_eval_defs tier85_at_1 tier85_at_10)

text \<open>
  Claim C8. For every pair of the 24 defined emotions, \<open>calculateAxisDistance\<close> on the axes
  of the two emotions does not throw, and the angle-based axis distance computed inside
  \<open>calculateEmotionDistance\<close> equals it; \<open>calculateEmotionDistance\<close> returns this distance
  plus half the distance of the two intensities.
\<close>

theorem axis_distance_embeddings_agree:
  assumes "e1 \<in> set PLUTCHIK_EMOTIONS_3_LAYER" "e2 \<in> set PLUTCHIK_EMOTIONS_3_LAYER"
  shows "\<exists>d. calculateAxisDistance (axis e1) (axis e2) = Inr d \<and>
             angleAxisDistance e1 e2 = Finite (of_int d) \<and>
             calculateEmotionDistance e1 e2 =
               Finite (of_int d +
                 of_int \<bar>intensityIndex (intensity e1) - intensityIndex (intensity e2)\<bar> / 2)"
proof -
  obtain p where p: "AXIS_POSITIONS (axis e1) = Some p" "0 \<le> p" "p < 8" "angle e1 = 45 * p"
    using table_axis[OF assms(1)] by blast
  obtain q where q: "AXIS_POSITIONS (axis e2) = Some q" "0 \<le> q" "q < 8" "angle e2 = 45 * q"
    using table_axis[OF assms(2)] by blast
  define d where "d = min \<bar>p - q\<bar> (8 - \<bar>p - q\<bar>)"
  have dr: "0 \<le> d" "d \<le> 4" using p(2,3) q(2,3) unfolding d_def by (auto simp: min_def abs_if)
  have 1: "calculateAxisDistance (axis e1) (axis e2) = Inr d"
    using axis_distance_positions[OF p(1) q(1)] by (simp add: d_def)
  have 2: "angleAxisDistance e1 e2 = Finite (of_int d)"
    using angle_distance_positions[OF p(4) q(4) p(2,3) q(2,3)] by (simp add: d_def)
  show ?thesis using 1 2 emotion_distance_value[OF 2 dr] by blast
qed

text \<open>The statement above, run on explicit data.\<close>

theorem axis_distance_embeddings_agree_witness:
  "mkEmotion ''joy_weak'' ''joy'' weak ''Serenity'' 0 \<in> set PLUTCHIK_EMOTIONS_3_LAYER \<and>
   mkEmotion ''anger_strong'' ''anger'' strong ''Rage'' 270 \<in> set PLUTCHIK_EMOTIONS_3_LAYER \<and>
   calculateAxisDistance ''joy'' ''anger'' = Inr 2 \<and>
   angleAxisDistance (mkEmotion ''joy_weak'' ''joy'' weak ''Serenity'' 0)
     (mkEmotion ''anger_strong'' ''anger'' strong ''Rage'' 270) = Finite 2 \<and>
   calculateEmotionDistance (mkEmotion ''joy_weak'' ''joy'' weak ''Serenity'' 0)
     (mkEmotion ''anger_strong'' ''anger'' strong ''Rage'' 270) = Finite 3"
proof -
  have a: "mkEmotion ''joy_weak'' ''joy'' weak ''Serenity'' 0 \<in> set PLUTCHIK_EMOTIONS_3_LAYER"
    unfolding PLUTCHIK_EMOTIONS_3_LAYER_def by (simp only: list.set insert_iff simp_thms)
  have b: "mkEmotion ''anger_strong'' ''anger'' strong ''Rage'' 270 \<in> set PLUTCHIK_EMOTIONS_3_LAYER"
    unfolding PLUTCHIK_EMOTIONS_3_LAYER_def by (simp only: list.set insert_iff simp_thms)
  have c: "calculateAxisDistance ''joy'' ''anger'' = Inr 2"
    by (simp add: calculateAxisDistance_def AXIS_POSITIONS_def)
  have ax: "axis (mkEmotion ''joy_weak'' ''joy'' weak ''Serenity'' 0) = ''joy''"
    "axis (mkEmotion ''anger_strong'' ''anger'' strong ''Rage'' 270) = ''anger''"
    "intensity (mkEmotion ''joy_weak'' ''joy'' weak ''Serenity'' 0) = weak"
    "intensity (mkEmotion ''anger_strong'' ''anger'' strong ''Rage'' 270) = strong"
    by (simp_all add: mkEmotion_def)
  obtain d where d: "calculateAxisDistance ''joy'' ''anger'' = Inr d"
     "angleAxisDistance (mkEmotion ''joy_weak'' ''joy'' weak ''Serenity'' 0)
        (mkEmotion ''anger_strong'' ''anger'' strong ''Rage'' 270) = Finite (of_int d)"
     "calculateEmotionDistance (mkEmotion ''joy_weak'' ''joy'' weak ''Serenity'' 0)
        (mkEmotion ''anger_strong'' ''anger'' strong ''Rage'' 270) =
        Finite (of_int d + of_int \<bar>intensityIndex weak - intensityIndex strong\<bar> / 2)"
    using axis_distance_embeddings_agree[OF a b] unfolding ax by blast
  have "d = 2" using c d(1) by simp
  then show ?thesis using a b c d(2,3) by simp
qed

text \<open>
  Claim C9, as amended. For two defined emotion ids and a number \<open>maxScore\<close> that is at least
  0, \<open>Infinity\<close> included, \<open>calculatePlutchikScore3Layer\<close> returns a score that is at least
  0, the same score when the two ids are swapped, and \<open>maxScore\<close> when the ids are equal. The
  score is at most \<open>maxScore\<close> when \<open>maxScore\<close> is an integer or at least 4. When \<open>maxScore\<close>
  is none of 0, 1, 2, 3 and \<open>Infinity\<close>, the score equals \<open>maxScore\<close> if and only if the ids
  are equal.
\<close>

theorem score_range_symmetric:
  assumes "c \<in> definedEmotionIds" "g \<in> definedEmotionIds" "isNumber m" "jsLe (Finite 0) m"
  shows "\<exists>r r'. calculatePlutchikScore3Layer c g m = Inr r \<and>
                calculatePlutchikScore3Layer g c m = Inr r' \<and>
                score r' = score r \<and> jsLe (Finite 0) (score r) \<and>
                (c = g \<longrightarrow> score r = m) \<and>
                (isInteger m \<or> jsLe (Finite 4) m \<longrightarrow> jsLe (score r) m) \<and>
                (m \<notin> {Finite 0, Finite 1, Finite 2, Finite 3, PosInfinity} \<longrightarrow>
                   (score r = m \<longleftrightarrow> c = g))"
proof -
  obtain r r' rel im where r: "calculatePlutchikScore3Layer c g m = Inr r"
      "calculatePlutchikScore3Layer g c m = Inr r'"
      "score r = (if c = g then m else baseScore rel im m)" "score r' = score r"
    using score_defined_ids[OF assms(1,2), of m] by blast
  have props: "jsLe (Finite 0) (score r) \<and> (c = g \<longrightarrow> score r = m) \<and>
      (isInteger m \<or> jsLe (Finite 4) m \<longrightarrow> jsLe (score r) m) \<and>
      (m \<notin> {Finite 0, Finite 1, Finite 2, Finite 3, PosInfinity} \<longrightarrow> (score r = m \<longleftrightarrow> c = g))"
  proof (cases "c = g")
    case True
    then have "score r = m" using r(3) by simp
    then show ?thesis using True assms(4) by (cases m) auto
  next
    case False
    then have sc: "score r = baseScore rel im m" using r(3) by simp
    show ?thesis
    proof (cases m)
      case (Finite x)
      then have x: "isDouble x" "0 \<le> x" using assms(3,4) by simp_all
      obtain s where s: "baseScore rel im (Finite x) = Finite (of_int s)" "0 \<le> s"
          "of_int s \<le> x * (861 / 1000) + 502 / 1000"
        using baseScore_finite[OF x] by blast
      have nonneg: "jsLe (Finite 0) (score r)" using sc s Finite by simp
      have range: "jsLe (score r) m" if "isInteger m \<or> jsLe (Finite 4) m"
      proof -
        from that Finite have "x = of_int \<lfloor>x\<rfloor> \<or> 4 \<le> x" by simp
        then have "of_int s \<le> x"
        proof
          assume i: "x = of_int \<lfloor>x\<rfloor>"
          define k where "k = \<lfloor>x\<rfloor>"
          have xk: "x = of_int k" using i by (simp add: k_def)
          have "(of_int s :: rat) < of_int k + 1" using s(3) x(2) unfolding xk by linarith
          then have "s < k + 1" by (simp flip: of_int_less_iff)
          then show ?thesis unfolding xk by simp
        next
          assume "4 \<le> x"
          then show ?thesis using s(3) by linarith
        qed
        then show ?thesis using sc s(1) Finite by simp
      qed
      have differ: "score r \<noteq> m" if "m \<notin> {Finite 0, Finite 1, Finite 2, Finite 3, PosInfinity}"
      proof
        assume "score r = m"
        then have eq: "x = of_int s" using sc s(1) Finite by simp
        have "of_int s < (4::rat)" using s(3) x(2) unfolding eq by linarith
        then have "s < 4" by (simp flip: of_int_less_iff)
        then have "s = 0 \<or> s = 1 \<or> s = 2 \<or> s = 3" using s(2) by linarith
        then have "x = 0 \<or> x = 1 \<or> x = 2 \<or> x = 3" unfolding eq by auto
        then show False using that Finite by auto
      qed
      show ?thesis using nonneg range differ False by blast
    next
      case PosInfinity
      then have "score r = PosInfinity \<or> score r = Finite 0"
        using sc baseScore_infinity[of rel im] by simp
      then show ?thesis using PosInfinity False by auto
    next
      case NegInfinity
      then show ?thesis using assms(4) by simp
    next
      case NaN
      then show ?thesis using assms(4) by simp
    qed
  qed
  show ?thesis using r(1,2,4) props by blast
qed

lemma isNumber_int: "\<bar>n\<bar> < 2 ^ 53 \<Longrightarrow> isNumber (Finite (of_int n))"
  by (simp add: isDouble_def toDouble_int)

text \<open>The statement above, run on explicit data.\<close>

theorem score_range_symmetric_witness:
  "''anger_medium'' \<in> definedEmotionIds \<and> ''fear_strong'' \<in> definedEmotionIds \<and>
   isNumber (Finite 100) \<and> jsLe (Finite 0) (Finite 100) \<and> isInteger (Finite 100) \<and>
   Finite 100 \<notin> {Finite 0, Finite 1, Finite 2, Finite 3, PosInfinity} \<and>
   ''anger_medium'' \<noteq> ''fear_strong'' \<and>
   calculatePlutchikScore3Layer ''anger_medium'' ''fear_strong'' (Finite 100) =
     Inr \<lparr>score = Finite 5, axisDistance = 4, intensityDistance = 1,
          totalDistance = Finite (9 / 2), relationship = opposite_axis, intensityMatch = close,
          maxScore = Finite 100\<rparr> \<and>
   (\<exists>r'. calculatePlutchikScore3Layer ''fear_strong'' ''anger_medium'' (Finite 100) = Inr r' \<and>
         score r' = Finite 5)"
proof -
  have a: "''anger_medium'' \<in> definedEmotionIds" by (simp add: id_defs)
  have f: "''fear_strong'' \<in> definedEmotionIds" by (simp add: id_defs)
  have n: "isNumber (Finite 100)" using isNumber_int[of 100] by simp
  have p: "jsLe (Finite 0) (Finite 100)" by simp
  have v: "calculatePlutchikScore3Layer ''anger_medium'' ''fear_strong'' (Finite 100) =
     Inr \<lparr>score = Finite 5, axisDistance = 4, intensityDistance = 1,
          totalDistance = Finite (9 / 2), relationship = opposite_axis, intensityMatch = close,
          maxScore = Finite 100\<rparr>"
    by (simp add: score_eval_defs tier05_at_100 calculateEmotionDistance_def
        angleAxisDistance_def)
  obtain r r' where r: "calculatePlutchikScore3Layer ''anger_medium'' ''fear_strong'' (Finite 100) = Inr r"
      "calculatePlutchikScore3Layer ''fear_strong'' ''anger_medium'' (Finite 100) = Inr r'"
      "score r' = score r"
    using score_range_symmetric[OF a f n p] by auto
  have "score r = Finite 5" using v r(1) by simp
  then show ?thesis using a f n r v by simp
qed

text \<open>
  Claim C9 as stated fails. The different ids \<open>joy_strong\<close> and \<open>joy_medium\<close> score
  \<open>Math.round(maxScore * 0.85)\<close>, which is \<open>maxScore\<close> itself for each of 1, 0, 2, 3 and
  \<open>Infinity\<close>; and for \<open>maxScore = 0.75\<close> the score is 1, above \<open>maxScore\<close>.
\<close>

theorem score_equals_max_counterexample:
  "''joy_strong'' \<noteq> ''joy_medium'' \<and>
   map_sum id score (calculatePlutchikScore3Layer ''joy_strong'' ''joy_medium'' (Finite 1)) =
     Inr (Finite 1) \<and>
   map_sum id score (calculatePlutchikScore3Layer ''joy_strong'' ''joy_medium'' (Finite 0)) =
     Inr (Finite 0) \<and>
   map_sum id score (calculatePlutchikScore3Layer ''joy_strong'' ''joy_medium'' (Finite 2)) =
     Inr (Finite 2) \<and>
   map_sum id score (calculatePlutchikScore3Layer ''joy_strong'' ''joy_medium'' (Finite 3)) =
     Inr (Finite 3) \<and>
   map_sum id score (calculatePlutchikScore3Layer ''joy_strong'' ''joy_medium'' PosInfinity) =
     Inr PosInfinity \<and>
   map_sum id score (calculatePlutchikScore3Layer ''joy_strong'' ''joy_medium'' (Finite (3 / 4))) =
     Inr (Finite 1) \<and>
   \<not> jsLe (Finite 1) (Finite (3 / 4))"
  by (simp add: score_eval_defs tier85_at_1 tier85_at_2 tier85_at_3 tier85_at_three_quarters
      tier_at_0 tier_product_infinity)

lemma score_undefined_id:
  "getEmotionById c = None \<or> getEmotionById g = None \<Longrightarrow>
     calculatePlutchikScore3Layer c g m = Inl (InvalidEmotionIDs c g)"
  by (auto simp: calculatePlutchikScore3Layer_def split: option.splits)

text \<open>
  Claim C10. \<open>calculatePlutchikScore3Layer\<close> throws if and only if one of its two ids is not
  among the 24 defined emotions. On two defined ids it returns a result; the invalid-axis
  error is never the outcome, and \<open>calculateAxisDistance\<close> on the axes of two emotions found
  by id returns a distance.
\<close>

theorem score_error_iff_undefined_id:
  "((\<exists>e. calculatePlutchikScore3Layer c g m = Inl e) \<longleftrightarrow>
      (c \<notin> definedEmotionIds \<or> g \<notin> definedEmotionIds)) \<and>
   (c \<in> definedEmotionIds \<and> g \<in> definedEmotionIds \<longrightarrow>
      (\<exists>r. calculatePlutchikScore3Layer c g m = Inr r)) \<and>
   (\<forall>a b. calculatePlutchikScore3Layer c g m \<noteq> Inl (InvalidAxis a b)) \<and>
   (\<forall>ce ge. getEmotionById c = Some ce \<and> getEmotionById g = Some ge \<longrightarrow>
      (\<exists>d. calculateAxisDistance (axis ce) (axis ge) = Inr d))"
proof (cases "c \<in> definedEmotionIds \<and> g \<in> definedEmotionIds")
  case True
  then obtain r where r: "calculatePlutchikScore3Layer c g m = Inr r"
    using score_defined_ids[of c g m] by blast
  have "\<exists>d. calculateAxisDistance (axis ce) (axis ge) = Inr d"
    if ce: "getEmotionById c = Some ce" and ge: "getEmotionById g = Some ge" for ce ge
  proof -
    obtain p where p: "AXIS_POSITIONS (axis ce) = Some p"
      using table_axis getEmotionById_Some[OF ce] by blast
    obtain q where q: "AXIS_POSITIONS (axis ge) = Some q"
      using table_axis getEmotionById_Some[OF ge] by blast
    show ?thesis using axis_distance_positions[OF p q] by blast
  qed
  then show ?thesis using True r by auto
next
  case False
  then have "getEmotionById c = None \<or> getEmotionById g = None"
    by (simp add: getEmotionById_None)
  then show ?thesis
    using score_undefined_id[of c g m] False by auto
qed

text \<open>The statement above, run on explicit data.\<close>

theorem score_error_iff_undefined_id_witness:
  "''joy_weak'' \<in> definedEmotionIds \<and> ''fear_medium'' \<in> definedEmotionIds \<and>
   ''rage'' \<notin> definedEmotionIds \<and>
   (\<exists>r. calculatePlutchikScore3Layer ''joy_weak'' ''fear_medium'' (Finite 100) = Inr r) \<and>
   (\<exists>e. calculatePlutchikScore3Layer ''joy_weak'' ''rage'' (Finite 100) = Inl e)"
proof -
  have a: "''joy_weak'' \<in> definedEmotionIds" "''fear_medium'' \<in> definedEmotionIds"
    "''rage'' \<notin> definedEmotionIds"
    by (simp_all add: definedEmotionIds_def PLUTCHIK_EMOTIONS_3_LAYER_def mkEmotion_def)
  show ?thesis
    using a score_error_iff_undefined_id[of "''joy_weak''" "''fear_medium''" "Finite 100"]
      score_error_iff_undefined_id[of "''joy_weak''" "''rage''" "Finite 100"]
    by blast
qed

section \<open>Claims about voice processing and player identity\<close>

text \<open>
  Claim C6. For every emotion id that has an entry in \<open>EMOTION_REVERSAL_MAP\<close>,
  \<open>getVoiceProcessingForEmotion\<close> returns the \<open>emotion_reverse\<close> pattern with exactly the pitch
  and the tempo of that entry, whatever the random source.
\<close>

theorem reversal_entry_selects_emotion_reverse:
  "EMOTION_REVERSAL_MAP emotionId = Some (p, t) \<Longrightarrow>
     getVoiceProcessingForEmotion emotionId rnd =
       Some \<lparr>pattern = emotion_reverse, pitch = p, tempo = t, description = ReversalText emotionId\<rparr>"
  by (simp add: getVoiceProcessingForEmotion_def)

text \<open>The statement above, run on explicit data.\<close>

theorem reversal_entry_selects_emotion_reverse_witness:
  "EMOTION_REVERSAL_MAP ''fear_weak'' = Some (2, 16 / 10) \<and>
   getVoiceProcessingForEmotion ''fear_weak'' (1 / 3) =
     Some \<lparr>pattern = emotion_reverse, pitch = 2, tempo = 16 / 10,
           description = ReversalText ''fear_weak''\<rparr>"
proof -
  have a: "EMOTION_REVERSAL_MAP ''fear_weak'' = Some (2, 16 / 10)"
    by (simp add: EMOTION_REVERSAL_MAP_def)
  show ?thesis using a reversal_entry_selects_emotion_reverse[OF a, of "1 / 3"] by simp
qed

text \<open>
  Claim C7. In the browser, with \<open>crypto.randomUUID\<close> returning a non-empty string: after a
  call of \<open>getOrCreatePlayerId\<close> the id it returned is the one stored, and every later call
  returns that id and leaves the storage as it is. A \<open>joinRoom\<close> with a socket emits a
  \<open>join_room\<close> message that carries this id, the id is still the stored one afterwards, and
  every later \<open>joinRoom\<close> carries the same id.
\<close>

theorem player_id_durable:
  assumes "hasWindow env" "u \<noteq> []"
  shows "\<exists>p env1. getOrCreatePlayerId env u = (p, env1) \<and> getPlayerId env1 = Some p \<and>
           (\<forall>u'. getOrCreatePlayerId env1 u' = (p, env1)) \<and>
           (\<forall>rid nm. \<exists>env2. joinRoom env True u rid nm =
               (Some \<lparr>join_roomId = rid, join_playerName = nm, join_playerId = p\<rparr>, env2) \<and>
               getPlayerId env2 = Some p \<and>
               (\<forall>u' rid' nm'. \<exists>env3. joinRoom env2 True u' rid' nm' =
                  (Some \<lparr>join_roomId = rid', join_playerName = nm', join_playerId = p\<rparr>, env3)))"
proof -
  have keys: "PLAYER_NAME_KEY \<noteq> PLAYER_ID_KEY"
    by (simp add: PLAYER_NAME_KEY_def PLAYER_ID_KEY_def)
  obtain p env1 where g: "getOrCreatePlayerId env u = (p, env1)"
    by (cases "getOrCreatePlayerId env u") auto
  have st: "hasWindow env1 \<and> localStorage env1 PLAYER_ID_KEY = Some p \<and> p \<noteq> []"
    using g assms by (auto simp: getOrCreatePlayerId_def split: option.splits if_splits)
  have again: "getOrCreatePlayerId e u' = (p, e)"
    if "hasWindow e" "localStorage e PLAYER_ID_KEY = Some p" for e u'
    using that st by (simp add: getOrCreatePlayerId_def)
  have saved: "hasWindow (savePlayerName e nm) \<and> localStorage (savePlayerName e nm) PLAYER_ID_KEY = Some p"
    if "hasWindow e" "localStorage e PLAYER_ID_KEY = Some p" for e nm
    using that keys by (simp add: savePlayerName_def)
  have "getPlayerId env1 = Some p" using st by (simp add: getPlayerId_def)
  moreover have "\<forall>u'. getOrCreatePlayerId env1 u' = (p, env1)" using again st by blast
  moreover have "\<exists>env2. joinRoom env True u rid nm =
               (Some \<lparr>join_roomId = rid, join_playerName = nm, join_playerId = p\<rparr>, env2) \<and>
               getPlayerId env2 = Some p \<and>
               (\<forall>u' rid' nm'. \<exists>env3. joinRoom env2 True u' rid' nm' =
                  (Some \<lparr>join_roomId = rid', join_playerName = nm', join_playerId = p\<rparr>, env3))" for rid nm
  proof -
    let ?env2 = "savePlayerName env1 nm"
    have e2: "hasWindow ?env2" "localStorage ?env2 PLAYER_ID_KEY = Some p"
      using saved[of env1 nm] st by simp_all
    have "joinRoom env True u rid nm =
            (Some \<lparr>join_roomId = rid, join_playerName = nm, join_playerId = p\<rparr>, ?env2)"
      using g by (simp add: joinRoom_def)
    moreover have "getPlayerId ?env2 = Some p" using e2 by (simp add: getPlayerId_def)
    moreover have "\<exists>env3. joinRoom ?env2 True u' rid' nm' =
        (Some \<lparr>join_roomId = rid', join_playerName = nm', join_playerId = p\<rparr>, env3)" for u' rid' nm'
      using again[OF e2, of u'] by (simp add: joinRoom_def)
    ultimately show ?thesis by blast
  qed
  ultimately show ?thesis using g by blast
qed

text \<open>The statement above, run on explicit data.\<close>

theorem player_id_durable_witness:
  "hasWindow freshBrowser \<and> ''3b241101-e2bb-4255-8caf-4136c566a962'' \<noteq> [] \<and>
   (\<exists>p env1. getOrCreatePlayerId freshBrowser ''3b241101-e2bb-4255-8caf-4136c566a962'' = (p, env1) \<and>
      p = ''3b241101-e2bb-4255-8caf-4136c566a962'' \<and>
      getOrCreatePlayerId env1 ''9f0c57a2-1111-4222-8333-444455556666'' = (p, env1))"
proof -
  have a: "hasWindow freshBrowser" by (simp add: freshBrowser_def)
  have b: "''3b241101-e2bb-4255-8caf-4136c566a962'' \<noteq> []" by simp
  have c: "fst (getOrCreatePlayerId freshBrowser ''3b241101-e2bb-4255-8caf-4136c566a962'') =
             ''3b241101-e2bb-4255-8caf-4136c566a962''"
    by (simp add: getOrCreatePlayerId_def freshBrowser_def)
  show ?thesis
    using a b c player_id_durable[OF a b] by auto
qed

section \<open>Claims about the client store\<close>

lemmas action_defs = setRoomState_def setConnected_def setCurrentRound_def setSpeakerEmotion_def
  setPlayerVote_def setLastResult_def setGameComplete_def setAudioUrl_def setAudioProcessed_def
  setError_def setVoteTimer_def stopVoteTimer_def reset_def

lemmas handler_defs = on_connect_def on_disconnect_def on_connect_error_def on_room_state_def
  on_left_room_def on_round_start_def on_speaker_emotion_def on_round_result_def
  on_game_complete_def on_audio_received_def on_vote_timeout_def on_vote_timeout_elapsed_def
  on_error_def

lemmas sample_defs = sampleConfig_def sampleRoom_def sampleRoundStart_def sampleResult_def
  sampleGameComplete_def sampleAudio_def joinedInRound_def initialStore_def

text \<open>
  Claim C5. For every prior state, processing a \<open>round_start\<close> event leaves the stored player
  vote cleared (\<open>null\<close>), so no vote of an earlier round is kept into the new round.
\<close>

theorem round_start_clears_vote:
  "playerVote (handleEvent store s (Round_start data)) = None"
  by (simp add: on_round_start_def action_defs Let_def)

lemma round_start_fields:
  "currentRound (on_round_start data s) \<noteq> None \<and> roomState (on_round_start data s) = roomState s"
  by (simp add: on_round_start_def action_defs Let_def)

lemma round_result_round: "currentRound (on_round_result store data s) = None"
  by (simp add: on_round_result_def action_defs Let_def split: option.splits)

lemma round_result_roomState:
  "roomState (on_round_result store data s) =
     (if isGameComplete data = Some True then roomState s
      else case roomState store of
             Some rs \<Rightarrow> Some (rs\<lparr>phase := waiting\<rparr>)
           | None \<Rightarrow> roomState s)"
  by (simp add: on_round_result_def action_defs Let_def split: option.splits)

text \<open>
  Claim C2, as amended. The client store keeps the phase and the current round in separate
  fields written by different events, and the equivalence is not an invariant of the
  handlers. Processing \<open>round_start\<close> always installs a current round and leaves the stored
  room state as it was, so afterwards the equivalence holds exactly when the stored phase
  was \<open>in_round\<close> already. Processing \<open>round_result\<close> always removes the current round, so
  afterwards the equivalence holds exactly when the stored phase is not \<open>in_round\<close>; a
  game-complete \<open>round_result\<close> leaves the stored room state as it was.
\<close>

theorem round_events_and_phase:
  "currentRound (handleEvent store s (Round_start d)) \<noteq> None \<and>
   roomState (handleEvent store s (Round_start d)) = roomState s \<and>
   (phaseMatchesRound (handleEvent store s (Round_start d)) \<longleftrightarrow> storedPhase s = Some in_round) \<and>
   currentRound (handleEvent store s (Round_result r)) = None \<and>
   (phaseMatchesRound (handleEvent store s (Round_result r)) \<longleftrightarrow>
      storedPhase (handleEvent store s (Round_result r)) \<noteq> Some in_round) \<and>
   (isGameComplete r = Some True \<longrightarrow>
      roomState (handleEvent store s (Round_result r)) = roomState s)"
  using round_start_fields[of d s] round_result_round[of store r s]
    round_result_roomState[of store r s]
  by (auto simp: phaseMatchesRound_def storedPhase_def)

text \<open>The statement above, run on explicit data.\<close>

theorem round_events_and_phase_witness:
  "storedPhase joinedInRound = Some in_round \<and>
   phaseMatchesRound (handleEvent joinedInRound joinedInRound (Round_start sampleRoundStart)) \<and>
   isGameComplete (sampleResult (Some True)) = Some True \<and>
   roomState (handleEvent joinedInRound joinedInRound (Round_result (sampleResult (Some True)))) =
     roomState joinedInRound \<and>
   currentRound (handleEvent joinedInRound joinedInRound (Round_result (sampleResult (Some True)))) =
     None \<and>
   \<not> phaseMatchesRound
       (handleEvent joinedInRound joinedInRound (Round_result (sampleResult (Some True))))"
proof -
  have h1: "storedPhase joinedInRound = Some in_round"
    by (simp add: storedPhase_def sample_defs on_room_state_def action_defs)
  have h2: "isGameComplete (sampleResult (Some True)) = Some True"
    by (simp add: sampleResult_def)
  note T = round_events_and_phase[of joinedInRound joinedInRound sampleRoundStart
      "sampleResult (Some True)"]
  have same: "roomState (handleEvent joinedInRound joinedInRound
      (Round_result (sampleResult (Some True)))) = roomState joinedInRound"
    using T h2 by blast
  have "storedPhase (handleEvent joinedInRound joinedInRound
      (Round_result (sampleResult (Some True)))) = Some in_round"
    using same h1 by (simp add: storedPhase_def)
  then show ?thesis using h1 h2 same T by simp
qed

text \<open>
  Claim C2 as stated fails, in both halves. After a \<open>room_state\<close> broadcast with phase
  \<open>waiting\<close> followed by \<open>round_start\<close>, a current round is present while the stored phase
  is \<open>waiting\<close>. After \<open>room_state\<close> with phase \<open>in_round\<close>, \<open>round_start\<close> and a game-complete
  \<open>round_result\<close>, the current round is gone while the stored phase is still \<open>in_round\<close>.
\<close>

theorem phase_round_counterexample:
  "\<not> phaseMatchesRound (processEvents initialStore initialStore
      [Room_state (sampleRoom waiting), Round_start sampleRoundStart]) \<and>
   \<not> phaseMatchesRound (processEvents initialStore initialStore
      [Room_state (sampleRoom in_round), Round_start sampleRoundStart,
       Round_result (sampleResult (Some True))])"
  by (simp add: processEvents_def phaseMatchesRound_def storedPhase_def handler_defs action_defs
      sample_defs Let_def)

lemma timer_not_started:
  "\<not> startsVoteTimer ev \<Longrightarrow> isActive (voteTimer (handleEvent store s ev)) \<Longrightarrow> isActive (voteTimer s)"
  by (cases ev)
     (auto simp: handler_defs action_defs initialStore_def Let_def split: option.splits if_splits)

lemma timer_started:
  "startsVoteTimer ev \<Longrightarrow>
     \<exists>d u t n. ev = Audio_received d (Some u) \<and> voting_started_at d = Some t \<and>
       vote_timeout_seconds d = Some n \<and> t \<noteq> [] \<and> n \<noteq> 0 \<and>
       voteTimer (handleEvent store s ev) = \<lparr>startTime = Some t, timeoutSeconds = n, isActive = True\<rparr>"
proof (cases ev)
  case (Audio_received d ou)
  assume sv: "startsVoteTimer ev"
  then obtain u where u: "ou = Some u" using Audio_received by (cases ou) auto
  from sv Audio_received u obtain t n where tn: "voting_started_at d = Some t"
      "vote_timeout_seconds d = Some n" "t \<noteq> []" "n \<noteq> 0"
    by (auto split: option.splits)
  show ?thesis
    using Audio_received u tn by (simp add: on_audio_received_def action_defs Let_def)
qed auto

lemma timer_round_start: "voteTimer (handleEvent store s (Round_start d)) = voteTimer s"
  by (simp add: on_round_start_def action_defs Let_def)

lemma timer_sequence:
  "\<not> isActive (voteTimer s) \<Longrightarrow> \<forall>ev\<in>set evs. \<not> startsVoteTimer ev \<Longrightarrow>
     \<not> isActive (voteTimer (processEvents store s evs))"
  unfolding processEvents_def
proof (induction evs arbitrary: s)
  case Nil
  then show ?case by simp
next
  case (Cons e evs)
  have "\<not> isActive (voteTimer (handleEvent store s e))"
    using timer_not_started[of e store s] Cons.prems by auto
  then show ?case using Cons.IH[of "handleEvent store s e"] Cons.prems by simp
qed

text \<open>
  Claim C3, as amended. Processing \<open>round_start\<close> leaves the vote timer as it was, so it
  never starts it. A handler turns an inactive timer active only when it processes an
  \<open>audio_received\<close> event whose audio converts and whose timer fields are present and truthy,
  and the timer then holds the given \<open>voting_started_at\<close> and \<open>vote_timeout_seconds\<close>. From a
  state with an inactive timer, a sequence of events without such an event leaves the timer
  inactive.
\<close>

theorem vote_timer_started_only_by_audio:
  "voteTimer (handleEvent store s (Round_start d)) = voteTimer s \<and>
   (isActive (voteTimer (handleEvent store s ev)) \<and> \<not> isActive (voteTimer s) \<longrightarrow>
      (\<exists>a u t n. ev = Audio_received a (Some u) \<and> voting_started_at a = Some t \<and>
         vote_timeout_seconds a = Some n \<and> t \<noteq> [] \<and> n \<noteq> 0 \<and>
         voteTimer (handleEvent store s ev) =
           \<lparr>startTime = Some t, timeoutSeconds = n, isActive = True\<rparr>)) \<and>
   (\<not> isActive (voteTimer s) \<and> (\<forall>e\<in>set evs. \<not> startsVoteTimer e) \<longrightarrow>
      \<not> isActive (voteTimer (processEvents store s evs)))"
  using timer_round_start[of store s d] timer_not_started[of ev store s] timer_started[of ev store s]
    timer_sequence[of s evs store]
  by blast

text \<open>The statement above, run on explicit data.\<close>

theorem vote_timer_started_only_by_audio_witness:
  "\<not> isActive (voteTimer initialStore) \<and>
   isActive (voteTimer (handleEvent initialStore initialStore (Audio_received sampleAudio (Some ''blob:a1'')))) \<and>
   voteTimer (handleEvent initialStore initialStore (Audio_received sampleAudio (Some ''blob:a1''))) =
     \<lparr>startTime = Some ''2026-01-10T09:00:00Z'', timeoutSeconds = 30, isActive = True\<rparr> \<and>
   \<not> startsVoteTimer (Room_state (sampleRoom in_round)) \<and>
   \<not> startsVoteTimer (Round_start sampleRoundStart) \<and>
   \<not> isActive (voteTimer (processEvents initialStore initialStore
        [Room_state (sampleRoom in_round), Round_start sampleRoundStart]))"
  using vote_timer_started_only_by_audio[of initialStore initialStore sampleRoundStart
      "Audio_received sampleAudio (Some ''blob:a1'')"
      "[Room_state (sampleRoom in_round), Round_start sampleRoundStart]"]
  by (simp add: on_audio_received_def action_defs sample_defs Let_def)

text \<open>
  Claim C3 as stated fails: \<open>round_start\<close> does not stop a timer that an earlier
  \<open>audio_received\<close> started, so after the sequence \<open>audio_received\<close>, \<open>round_start\<close> the
  timer is active.
\<close>

theorem vote_timer_after_round_start_counterexample:
  "isActive (voteTimer (processEvents initialStore initialStore
      [Audio_received sampleAudio (Some ''blob:a1''), Round_start sampleRoundStart]))"
  by (simp add: processEvents_def handler_defs action_defs sample_defs Let_def)

lemma unchanged_roomState:
  "\<not> hasRoomStateWrite ev \<Longrightarrow> roomState (handleEvent store s ev) = roomState s"
  by (cases ev)
     (auto simp: handler_defs action_defs Let_def split: option.splits if_splits)

lemma round_result_phase:
  "roomState (handleEvent store s (Round_result r)) = roomState s \<or>
   storedPhase (handleEvent store s (Round_result r)) = Some waiting"
  by (auto simp: storedPhase_def handler_defs action_defs Let_def split: option.splits)

lemma game_complete_phase:
  "roomState (handleEvent store s (Game_complete g)) = roomState s \<or>
   storedPhase (handleEvent store s (Game_complete g)) = Some closed"
  by (auto simp: storedPhase_def handler_defs action_defs Let_def split: option.splits)

text \<open>
  Claim C4, as amended. The stored room state, and with it the stored phase, changes only
  under four events. \<open>room_state\<close> stores the broadcast. \<open>round_result\<close> either leaves the
  room state as it was or leaves the phase \<open>waiting\<close>, and leaves it as it was when the
  result is game-complete. \<open>game_complete\<close> either leaves the room state as it was or leaves
  the phase \<open>closed\<close>. \<open>left_room\<close> resets the store, which then holds no room state. Every
  other handler leaves the room state unchanged.
\<close>

theorem stored_phase_writers:
  "(\<not> hasRoomStateWrite ev \<longrightarrow> roomState (handleEvent store s ev) = roomState s) \<and>
   roomState (handleEvent store s (Room_state d)) = Some d \<and>
   (roomState (handleEvent store s (Round_result r)) = roomState s \<or>
    storedPhase (handleEvent store s (Round_result r)) = Some waiting) \<and>
   (isGameComplete r = Some True \<longrightarrow>
      roomState (handleEvent store s (Round_result r)) = roomState s) \<and>
   (roomState (handleEvent store s (Game_complete g)) = roomState s \<or>
    storedPhase (handleEvent store s (Game_complete g)) = Some closed) \<and>
   roomState (handleEvent store s Left_room) = None"
proof -
  have 1: "roomState (handleEvent store s (Room_state d)) = Some d"
    by (simp add: handler_defs action_defs Let_def)
  have 2: "isGameComplete r = Some True \<longrightarrow>
      roomState (handleEvent store s (Round_result r)) = roomState s"
    by (simp add: handler_defs action_defs Let_def)
  have 3: "roomState (handleEvent store s Left_room) = None"
    by (simp add: handler_defs action_defs initialStore_def)
  show ?thesis
    using unchanged_roomState[of ev store s] round_result_phase[of store s r]
      game_complete_phase[of store s g] 1 2 3
    by blast
qed

text \<open>The statement above, run on explicit data.\<close>

theorem stored_phase_writers_witness:
  "\<not> hasRoomStateWrite (Round_start sampleRoundStart) \<and>
   roomState (handleEvent joinedInRound joinedInRound (Round_start sampleRoundStart)) =
     roomState joinedInRound \<and>
   isGameComplete (sampleResult (Some True)) = Some True \<and>
   roomState (handleEvent joinedInRound joinedInRound (Round_result (sampleResult (Some True)))) =
     roomState joinedInRound \<and>
   roomState (handleEvent joinedInRound joinedInRound (Room_state (sampleRoom waiting))) =
     Some (sampleRoom waiting) \<and>
   roomState (handleEvent joinedInRound joinedInRound Left_room) = None"
proof -
  have h1: "\<not> hasRoomStateWrite (Round_start sampleRoundStart)" by simp
  have h2: "isGameComplete (sampleResult (Some True)) = Some True"
    by (simp add: sampleResult_def)
  show ?thesis
    using h1 h2 stored_phase_writers[of "Round_start sampleRoundStart" joinedInRound
      joinedInRound "sampleRoom waiting" "sampleResult (Some True)" sampleGameComplete]
    by blast
qed

text \<open>
  Claim C4 as stated fails: in a client whose stored phase is \<open>in_round\<close>, processing a
  \<open>round_result\<close> that is not game-complete assigns the phase \<open>waiting\<close> locally,
  processing \<open>game_complete\<close> assigns \<open>closed\<close>, and processing \<open>left_room\<close> removes the
  room state. None of the three is a \<open>room_state\<close> broadcast.
\<close>

theorem stored_phase_local_assignment_counterexample:
  "storedPhase joinedInRound = Some in_round \<and>
   storedPhase (handleEvent joinedInRound joinedInRound (Round_result (sampleResult None))) =
     Some waiting \<and>
   storedPhase (handleEvent joinedInRound joinedInRound (Game_complete sampleGameComplete)) =
     Some closed \<and>
   storedPhase (handleEvent joinedInRound joinedInRound Left_room) = None"
  by (simp add: storedPhase_def handler_defs action_defs sample_defs Let_def)

end
